theory Spec2Isabelle
  imports Complex_Main "HOL-Library.Monad_Syntax"
begin

section \<open>Conventions of the embedding\<close>

text \<open>
  The kernels of the flow solver are embedded as HOL functions.

  \<^item> \<^verbatim>\<open>real64\<close> is modelled by the field \<^typ>\<open>real\<close>: sums, products and quotients
    are the exact ones, so rounding, overflow, infinities and NaN are outside the model.
  \<^item> \<^verbatim>\<open>localIndex\<close> and \<^verbatim>\<open>globalIndex\<close> values that index arrays are \<^typ>\<open>nat\<close>;
    \<^verbatim>\<open>integer\<close> (ghost ranks, flags) is \<^typ>\<open>int\<close>.
  \<^item> An \<^verbatim>\<open>arrayView1d\<close> or \<^verbatim>\<open>arraySlice1d\<close> is a function from the index to the
    entry; the two-dimensional views are curried functions. A write \<^verbatim>\<open>a[i] = v\<close> is the
    function update \<open>a(i := v)\<close>. The views carry no extent of their own in the kernels, which
    index them with the stencil's entries without a check.
  \<^item> The built-in arrays of a fixed extent that a kernel declares itself (\<^verbatim>\<open>aperTerm[10]\<close>,
    \<^verbatim>\<open>k[2]\<close>, \<^verbatim>\<open>ei[2]\<close>) keep their extent: an access beyond it is undefined behaviour
    in C++, and the kernel's model returns \<open>None\<close>. A \<^verbatim>\<open>stackArray1d\<close> is sized by the
    stencil it serves; its capacity comes from a declaration outside the sources at hand and the
    stencil is taken to fit.
  \<^item> Console output (\<^verbatim>\<open>std::cout\<close>, \<^verbatim>\<open>printf\<close>, logging) is not modelled.
  \<^item> \<^verbatim>\<open>GEOSX_ERROR_IF\<close> aborts the run; the model returns the error as a value.
\<close>

section \<open>Aperture term of the lubrication permeability\<close>

text \<open>
  \<^verbatim>\<open>FluxKernelHelper::apertureForPermeablityCalculation< INTEGRATION_OPTION >\<close> has the three
  specialisations 0, 1 and 2. Each writes the two output references \<^verbatim>\<open>aperTerm\<close> and
  \<^verbatim>\<open>dAperTerm_dAper\<close>; the model returns them as a pair, in this order.
\<close>

definition apertureForPermeablityCalculation_0 :: "real \<Rightarrow> real \<Rightarrow> real \<times> real" where
  "apertureForPermeablityCalculation_0 aper0 aper = (aper0 * aper0 * aper0, 0)"

definition apertureForPermeablityCalculation_1 :: "real \<Rightarrow> real \<Rightarrow> real \<times> real" where
  "apertureForPermeablityCalculation_1 aper0 aper =
     (0.25 * (aper0 * aper0 * aper0 + aper0 * aper0 * aper + aper0 * aper * aper + aper * aper * aper),
      0.25 * (aper0 * aper0 + 2 * aper0 * aper + 3 * aper * aper))"

definition apertureForPermeablityCalculation_2 :: "real \<Rightarrow> real \<Rightarrow> real \<times> real" where
  "apertureForPermeablityCalculation_2 aper0 aper = (aper * aper * aper, 3.0 * aper * aper)"

section \<open>Damage model with volumetric-deviatoric split\<close>

text \<open>
  \<^verbatim>\<open>DamageVolDevUpdates< UPDATE_BASE >\<close>. The members inherited from \<^verbatim>\<open>DamageUpdates\<close> are
  fields of the record. \<^verbatim>\<open>UPDATE_BASE\<close> is a template parameter: its stress view
  \<^verbatim>\<open>m_stress\<close> and the values that its members \<^verbatim>\<open>getBulkModulus\<close> and
  \<^verbatim>\<open>calculateStrainEnergyDensity\<close> return in the present state are fields as well.
\<close>

record DamageVolDevUpdates =
  m_damage :: "nat \<Rightarrow> nat \<Rightarrow> real"
  m_strainEnergyDensity :: "nat \<Rightarrow> nat \<Rightarrow> real"
  m_lengthScale :: real
  m_criticalFractureEnergy :: real
  m_criticalStrainEnergy :: real
  m_stress :: "nat \<Rightarrow> nat \<Rightarrow> nat \<Rightarrow> real"
  getBulkModulus :: "nat \<Rightarrow> real"
  calculateStrainEnergyDensity :: "nat \<Rightarrow> nat \<Rightarrow> real"

text \<open>The Lorentz type degradation function; \<^verbatim>\<open>pow( x, 2 )\<close> is the square.\<close>

definition GetDegradationValue :: "DamageVolDevUpdates \<Rightarrow> nat \<Rightarrow> nat \<Rightarrow> real" where
  "GetDegradationValue u k q =
     (let m = m_criticalFractureEnergy u / (2 * m_lengthScale u * m_criticalStrainEnergy u);
          p = 1
      in (1 - m_damage u k q)\<^sup>2 /
         ((1 - m_damage u k q)\<^sup>2 + m * m_damage u k q * (1 + p * m_damage u k q)))"

text \<open>
  \<^verbatim>\<open>calculateActiveStrainEnergyDensity\<close> is a \<^verbatim>\<open>const\<close> member that writes through the
  view \<^verbatim>\<open>m_strainEnergyDensity\<close>; the model returns the value and the updated object.
  Its local \<^verbatim>\<open>sed\<close>, the candidate energy, is \<open>activeStrainEnergyCandidate\<close>.
\<close>

definition activeStrainEnergyCandidate :: "DamageVolDevUpdates \<Rightarrow> nat \<Rightarrow> nat \<Rightarrow> real" where
  "activeStrainEnergyCandidate u k q =
     (let K = getBulkModulus u k;
          traceOfStress = m_stress u k q 0 + m_stress u k q 1 + m_stress u k q 2;
          compressionIndicator = (if traceOfStress < 0.0 then 1 else 0)
      in calculateStrainEnergyDensity u k q
         - compressionIndicator * (traceOfStress / 3.0) * (traceOfStress / 3.0) / (2 * K))"

definition calculateActiveStrainEnergyDensity ::
  "DamageVolDevUpdates \<Rightarrow> nat \<Rightarrow> nat \<Rightarrow> real \<times> DamageVolDevUpdates" where
  "calculateActiveStrainEnergyDensity u k q =
     (let sed = activeStrainEnergyCandidate u k q;
          u' = (if sed > m_strainEnergyDensity u k q
                then u\<lparr>m_strainEnergyDensity :=
                         (m_strainEnergyDensity u)(k := (m_strainEnergyDensity u k)(q := sed))\<rparr>
                else u)
      in (m_strainEnergyDensity u' k q, u'))"

text \<open>
  Between two evaluations the mechanics solver changes the stress, and with it what the base
  class returns. A trial is the state of the base class at one evaluation; a sequence of
  evaluations at a fixed \<open>(k, q)\<close> installs each trial in turn and calls
  \<^const>\<open>calculateActiveStrainEnergyDensity\<close>, which alone writes the history field.
\<close>

record trial =
  trial_stress :: "nat \<Rightarrow> nat \<Rightarrow> nat \<Rightarrow> real"
  trial_bulkModulus :: "nat \<Rightarrow> real"
  trial_strainEnergyDensity :: "nat \<Rightarrow> nat \<Rightarrow> real"

definition evaluate_trial :: "nat \<Rightarrow> nat \<Rightarrow> DamageVolDevUpdates \<Rightarrow> trial \<Rightarrow> DamageVolDevUpdates" where
  "evaluate_trial k q u t =
     snd (calculateActiveStrainEnergyDensity
            (u\<lparr>m_stress := trial_stress t,
               getBulkModulus := trial_bulkModulus t,
               calculateStrainEnergyDensity := trial_strainEnergyDensity t\<rparr>) k q)"

fun evaluate_trials :: "nat \<Rightarrow> nat \<Rightarrow> DamageVolDevUpdates \<Rightarrow> trial list \<Rightarrow> DamageVolDevUpdates" where
  "evaluate_trials k q u [] = u"
| "evaluate_trials k q u (t # ts) = evaluate_trials k q (evaluate_trial k q u t) ts"

text \<open>An object with the damage \<open>d\<close> and the history \<open>h\<close> at every point, for evaluation.\<close>

definition example_damage :: "real \<Rightarrow> real \<Rightarrow> DamageVolDevUpdates" where
  "example_damage d h =
     \<lparr>m_damage = (\<lambda>k q. d), m_strainEnergyDensity = (\<lambda>k q. h),
      m_lengthScale = 1, m_criticalFractureEnergy = 4, m_criticalStrainEnergy = 1,
      m_stress = (\<lambda>k q i. if i < 3 then - 3 else 0), getBulkModulus = (\<lambda>k. 1),
      calculateStrainEnergyDensity = (\<lambda>k q. 10)\<rparr>"

definition example_trial :: "real \<Rightarrow> trial" where
  "example_trial e =
     \<lparr>trial_stress = (\<lambda>k q i. 0), trial_bulkModulus = (\<lambda>k. 1),
      trial_strainEnergyDensity = (\<lambda>k q. e)\<rparr>"

section \<open>Two-point flux kernel\<close>

text \<open>
  The local output buffers of a flux kernel: the flux vector and the pressure Jacobian block,
  both indexed by the slot of the connection.
\<close>

record flux_buffers =
  flux :: "nat \<Rightarrow> real"
  fluxJacobian :: "nat \<Rightarrow> nat \<Rightarrow> real"

text \<open>
  An \<^verbatim>\<open>ElementView\<close> is indexed by region, sub-region and element:
  \<^verbatim>\<open>pres[er][esr][ei]\<close> is \<open>pres er esr ei\<close>.
\<close>

type_synonym 'a ElementView = "nat \<Rightarrow> nat \<Rightarrow> nat \<Rightarrow> 'a"

text \<open>
  The loops of \<^verbatim>\<open>FluxKernel::Compute\<close>, one step function each; a loop
  \<^verbatim>\<open>for( ke = 0; ke < n; ++ke )\<close> folds its step over \<open>[0..<n]\<close>.

  The first loop averages the density over the \<^verbatim>\<open>numElems\<close> primary cells. The state is
  \<^verbatim>\<open>(densMean, dDensMean_dP)\<close>.
\<close>

definition densityStep ::
  "(nat \<Rightarrow> real) \<Rightarrow> (nat \<Rightarrow> real) \<Rightarrow> (nat \<Rightarrow> real) \<Rightarrow> nat
     \<Rightarrow> real \<times> (nat \<Rightarrow> real) \<Rightarrow> real \<times> (nat \<Rightarrow> real)" where
  "densityStep densWeight density dDens_dP ke s =
     (fst s + densWeight ke * density ke, (snd s)(ke := densWeight ke * dDens_dP ke))"

text \<open>
  The second loop computes the potential difference over the stencil. \<open>p ke\<close> is
  \<^verbatim>\<open>pres + dPres\<close> and \<open>gravD ke\<close> is \<^verbatim>\<open>gravCoef\<close> at the cell of entry \<open>ke\<close>. The state is
  \<^verbatim>\<open>(potDif, sumWeightGrav)\<close>.
\<close>

definition potentialStep ::
  "(nat \<Rightarrow> real) \<Rightarrow> (nat \<Rightarrow> real) \<Rightarrow> (nat \<Rightarrow> real) \<Rightarrow> real \<Rightarrow> nat \<Rightarrow> real \<times> real \<Rightarrow> real \<times> real" where
  "potentialStep stencilWeights p gravD densMean ke s =
     (let weight = stencilWeights ke;
          gravTerm = densMean * gravD ke
      in (fst s + weight * (p ke - gravTerm), snd s + weight * gravD ke))"

text \<open>The third loop fills \<^verbatim>\<open>dFlux_dP\<close>.\<close>

definition dFluxStep ::
  "(nat \<Rightarrow> real) \<Rightarrow> real \<Rightarrow> (nat \<Rightarrow> real) \<Rightarrow> real \<Rightarrow> nat \<Rightarrow> (nat \<Rightarrow> real) \<Rightarrow> (nat \<Rightarrow> real)" where
  "dFluxStep stencilWeights mobility dDensMean_dP sumWeightGrav ke dFlux_dP =
     (let weight = stencilWeights ke
      in dFlux_dP(ke := mobility * (weight - dDensMean_dP ke * sumWeightGrav)))"

text \<open>
  The last loop writes the two rows of the local Jacobian:
  \<^verbatim>\<open>fluxJacobian[0][ke] = dt * dFlux_dP[ke]; fluxJacobian[1][ke] = -fluxJacobian[0][ke];\<close>
\<close>

definition jacobianStep ::
  "real \<Rightarrow> (nat \<Rightarrow> real) \<Rightarrow> nat \<Rightarrow> (nat \<Rightarrow> nat \<Rightarrow> real) \<Rightarrow> (nat \<Rightarrow> nat \<Rightarrow> real)" where
  "jacobianStep dt dFlux_dP ke J =
     (let J0 = J(0 := (J 0)(ke := dt * dFlux_dP ke))
      in J0(1 := (J0 1)(ke := - J0 0 ke)))"

text \<open>
  \<^verbatim>\<open>Compute\<close>, the general version for cells of different element regions. \<open>numElems\<close> is
  \<^verbatim>\<open>CellElementStencilTPFA::NUM_POINT_IN_FLUX\<close>, a constant declared outside the sources at
  hand and therefore a parameter. The density averaging weights are \<open>0.5\<close>; the working
  array \<^verbatim>\<open>dFlux_dP\<close> starts from zero.
\<close>

definition Compute ::
  "nat \<Rightarrow> nat \<Rightarrow> (nat \<Rightarrow> nat) \<Rightarrow> (nat \<Rightarrow> nat) \<Rightarrow> (nat \<Rightarrow> nat) \<Rightarrow> (nat \<Rightarrow> real)
     \<Rightarrow> real ElementView \<Rightarrow> real ElementView \<Rightarrow> real ElementView
     \<Rightarrow> (nat \<Rightarrow> real) ElementView \<Rightarrow> (nat \<Rightarrow> real) ElementView
     \<Rightarrow> real ElementView \<Rightarrow> real ElementView \<Rightarrow> real \<Rightarrow> flux_buffers \<Rightarrow> flux_buffers" where
  "Compute numElems stencilSize seri sesri sei stencilWeights pres dPres gravCoef dens dDens_dPres
       mob dMob_dPres dt out =
     (let densWeight = (\<lambda>ke. 0.5);
          dm = fold (densityStep densWeight
                       (\<lambda>ke. dens (seri ke) (sesri ke) (sei ke) 0)
                       (\<lambda>ke. dDens_dPres (seri ke) (sesri ke) (sei ke) 0))
                 [0..<numElems] (0.0, \<lambda>ke. 0.0);
          densMean = fst dm;
          dDensMean_dP = snd dm;
          pd = fold (potentialStep stencilWeights
                       (\<lambda>ke. pres (seri ke) (sesri ke) (sei ke) + dPres (seri ke) (sesri ke) (sei ke))
                       (\<lambda>ke. gravCoef (seri ke) (sesri ke) (sei ke)) densMean)
                 [0..<stencilSize] (0.0, 0.0);
          potDif = fst pd;
          sumWeightGrav = snd pd;
          k_up = (if potDif \<ge> 0 then 0 else 1);
          er_up = seri k_up;
          esr_up = sesri k_up;
          ei_up = sei k_up;
          mobility = mob er_up esr_up ei_up;
          dMobility_dP = dMob_dPres er_up esr_up ei_up;
          fluxVal = mobility * potDif;
          dFlux_dP0 = fold (dFluxStep stencilWeights mobility dDensMean_dP sumWeightGrav)
                        [0..<stencilSize] (\<lambda>ke. 0);
          dFlux_dP = dFlux_dP0(k_up := dFlux_dP0 k_up + dMobility_dP * potDif);
          flux0 = (flux out)(0 := dt * fluxVal);
          flux1 = flux0(1 := - flux0 0)
      in out\<lparr>flux := flux1,
             fluxJacobian := fold (jacobianStep dt dFlux_dP) [0..<stencilSize] (fluxJacobian out)\<rparr>)"

text \<open>
  \<^verbatim>\<open>Compute\<close>, the specialised version for fluxes within one region; the views are indexed by
  the element alone and the density averaging weights are \<^verbatim>\<open>1.0 / numElems\<close>.
\<close>

definition Compute_sameRegion ::
  "nat \<Rightarrow> nat \<Rightarrow> (nat \<Rightarrow> nat) \<Rightarrow> (nat \<Rightarrow> real)
     \<Rightarrow> (nat \<Rightarrow> real) \<Rightarrow> (nat \<Rightarrow> real) \<Rightarrow> (nat \<Rightarrow> real)
     \<Rightarrow> (nat \<Rightarrow> nat \<Rightarrow> real) \<Rightarrow> (nat \<Rightarrow> nat \<Rightarrow> real)
     \<Rightarrow> (nat \<Rightarrow> real) \<Rightarrow> (nat \<Rightarrow> real) \<Rightarrow> real \<Rightarrow> flux_buffers \<Rightarrow> flux_buffers" where
  "Compute_sameRegion numElems stencilSize stencilElementIndices stencilWeights pres dPres gravCoef
       dens dDens_dPres mob dMob_dPres dt out =
     (let densWeight = (\<lambda>i. 1.0 / real numElems);
          dm = fold (densityStep densWeight
                       (\<lambda>i. dens (stencilElementIndices i) 0)
                       (\<lambda>i. dDens_dPres (stencilElementIndices i) 0))
                 [0..<numElems] (0.0, \<lambda>ke. 0.0);
          densMean = fst dm;
          dDensMean_dP = snd dm;
          pd = fold (potentialStep stencilWeights
                       (\<lambda>ke. pres (stencilElementIndices ke) + dPres (stencilElementIndices ke))
                       (\<lambda>ke. gravCoef (stencilElementIndices ke)) densMean)
                 [0..<stencilSize] (0.0, 0.0);
          potDif = fst pd;
          sumWeightGrav = snd pd;
          k_up = (if potDif \<ge> 0 then 0 else 1);
          ei_up = stencilElementIndices k_up;
          mobility = mob ei_up;
          dMobility_dP = dMob_dPres ei_up;
          fluxVal = mobility * potDif;
          dFlux_dP0 = fold (dFluxStep stencilWeights mobility dDensMean_dP sumWeightGrav)
                        [0..<stencilSize] (\<lambda>ke. 0);
          dFlux_dP = dFlux_dP0(k_up := dFlux_dP0 k_up + dMobility_dP * potDif);
          flux0 = (flux out)(0 := dt * fluxVal);
          flux1 = flux0(1 := - flux0 0)
      in out\<lparr>flux := flux1,
             fluxJacobian := fold (jacobianStep dt dFlux_dP) [0..<stencilSize] (fluxJacobian out)\<rparr>)"

text \<open>
  A connection of two cells \<open>3\<close> and \<open>5\<close> of one region for evaluation: pressures \<open>10\<close> and
  \<open>5\<close>, no pressure change, no gravity, density \<open>1\<close>, mobilities \<open>1\<close> and \<open>7\<close>.
\<close>

definition example_pres :: "nat \<Rightarrow> real" where
  "example_pres ei = (if ei = 3 then 10 else 5)"

definition example_mob :: "nat \<Rightarrow> real" where
  "example_mob ei = (if ei = 3 then 1 else 7)"

definition example_stencil :: "nat \<Rightarrow> nat" where
  "example_stencil ke = (if ke = 0 then 3 else 5)"

definition example_weights :: "real \<Rightarrow> nat \<Rightarrow> real" where
  "example_weights T ke = (if ke = 0 then T else - T)"

definition zero_buffers :: flux_buffers where
  "zero_buffers = \<lparr>flux = (\<lambda>k. 0), fluxJacobian = (\<lambda>k l. 0)\<rparr>"

section \<open>Junction flux kernel\<close>

subsection \<open>Collaborators of the kernel\<close>

text \<open>
  \<^verbatim>\<open>R1Tensor\<close> is the three-component vector of the framework; its declaration is outside the
  sources at hand. The members that the kernel calls have their meaning from linear algebra:
  \<^verbatim>\<open>operator-=\<close> is the component-wise difference, \<^verbatim>\<open>Dot\<close> the inner product,
  \<^verbatim>\<open>L2_Norm\<close> the Euclidean norm, and \<^verbatim>\<open>Normalize\<close> divides by the norm when it is positive.
\<close>

type_synonym R1Tensor = "real \<times> real \<times> real"

definition R1Tensor_minus :: "R1Tensor \<Rightarrow> R1Tensor \<Rightarrow> R1Tensor" where
  "R1Tensor_minus a b =
     (fst a - fst b, fst (snd a) - fst (snd b), snd (snd a) - snd (snd b))"

definition Dot :: "R1Tensor \<Rightarrow> R1Tensor \<Rightarrow> real" where
  "Dot a b = fst a * fst b + fst (snd a) * fst (snd b) + snd (snd a) * snd (snd b)"

definition L2_Norm :: "R1Tensor \<Rightarrow> real" where
  "L2_Norm a = sqrt (Dot a a)"

definition Normalize :: "R1Tensor \<Rightarrow> R1Tensor" where
  "Normalize a =
     (let n = L2_Norm a
      in if n > 0 then (fst a / n, fst (snd a) / n, snd (snd a) / n) else a)"

text \<open>
  \<^verbatim>\<open>pow\<close> of the C library, on the reals: a power with an integral exponent is the repeated
  product or its reciprocal, any other power is \<^const>\<open>powr\<close>. The two agree with the library
  for a positive base. For a base that is zero or negative the library may return an infinity
  or NaN, which the model does not have.
\<close>

definition std_pow :: "real \<Rightarrow> real \<Rightarrow> real" where
  "std_pow x y =
     (if y = of_int \<lfloor>y\<rfloor>
      then (if y \<ge> 0 then x ^ nat \<lfloor>y\<rfloor> else 1 / x ^ nat \<lfloor>- y\<rfloor>)
      else x powr y)"

text \<open>
  What \<^verbatim>\<open>ComputeJunction\<close> reads through its \<^verbatim>\<open>domain\<close> pointer, by the name of the getter
  or of the repository key it reads:
  \<^item> from the hydrofracture solver, \<^verbatim>\<open>getConvergedTipLoc\<close>, \<^verbatim>\<open>getMeshSize\<close>,
    \<^verbatim>\<open>getTotalTime\<close>;
  \<^item> from the surface generator, the sorted arrays \<^verbatim>\<open>getTrailingFaces\<close> and
    \<^verbatim>\<open>getTipNodes\<close>;
  \<^item> from the fracture sub-region, the face list of the face elements (\<open>faceList i j\<close> for
    \<open>i < faceList_size0\<close>, \<open>j < faceList_size1\<close>);
  \<^item> from the constitutive group, the default shear modulus, bulk modulus and viscosity;
  \<^item> from the field specifications, the \<^verbatim>\<open>scale\<close> of the source term;
  \<^item> from the face manager, the face normals and the nodes of a face (\<open>nodeList f a\<close> for
    \<open>a < nodeList_sizeOfArray f\<close>);
  \<^item> from the node manager, the total displacement;
  \<^item> from the edge manager, the edge of a fracture connector and, for the edge \<open>e\<close>, the value
    of \<^verbatim>\<open>calculateLength( e, X ).L2_Norm()\<close>.
\<close>

record junction_domain =
  getConvergedTipLoc :: real
  getMeshSize :: real
  getTotalTime :: real
  getTrailingFaces :: "nat list"
  getTipNodes :: "nat list"
  faceList :: "nat \<Rightarrow> nat \<Rightarrow> nat"
  faceList_size0 :: nat
  faceList_size1 :: nat
  defaultShearModulus :: real
  defaultBulkModulus :: real
  defaultViscosity :: real
  sourceTerm_scale :: real
  faceNormal :: "nat \<Rightarrow> R1Tensor"
  nodeList :: "nat \<Rightarrow> nat \<Rightarrow> nat"
  nodeList_sizeOfArray :: "nat \<Rightarrow> nat"
  totalDisplacement :: "nat \<Rightarrow> R1Tensor"
  fractureConnectorEdgesToEdges :: "nat \<Rightarrow> nat"
  calculateLength_L2_Norm :: "nat \<Rightarrow> real"

text \<open>The buffers of the junction kernel add the aperture Jacobian block.\<close>

record junction_buffers = flux_buffers +
  dFlux_dAperture :: "nat \<Rightarrow> nat \<Rightarrow> real"

subsection \<open>Loops and local arrays\<close>

text \<open>A loop whose body may run into undefined behaviour stops there.\<close>

fun fold_option :: "('a \<Rightarrow> 's \<Rightarrow> 's option) \<Rightarrow> 'a list \<Rightarrow> 's \<Rightarrow> 's option" where
  "fold_option f [] s = Some s"
| "fold_option f (x # xs) s = (case f x s of None \<Rightarrow> None | Some s' \<Rightarrow> fold_option f xs s')"

text \<open>
  A local array of extent two, such as \<^verbatim>\<open>k[2]\<close> and \<^verbatim>\<open>ei[2]\<close>, is a pair; \<open>elem2\<close> reads it at a
  computed index.
\<close>

definition elem2 :: "'a \<times> 'a \<Rightarrow> nat \<Rightarrow> 'a option" where
  "elem2 a i = (if i = 0 then Some (fst a) else if i = 1 then Some (snd a) else None)"





subsection \<open>The tip asymptote\<close>

text \<open>
  The loop that classifies the connected elements. It runs over \<^verbatim>\<open>i < numFluxElems\<close> and
  reads \<^verbatim>\<open>ei[i]\<close> and \<^verbatim>\<open>k[i]\<close>, two arrays of extent two. The state is
  \<^verbatim>\<open>(tempCount, tipElmtIndex, channelElmtIndex)\<close>; the two indices are declared without an
  initial value, which is \<open>None\<close>.
\<close>

definition tipScanStep ::
  "nat list \<Rightarrow> nat \<times> nat \<Rightarrow> nat \<times> nat \<Rightarrow> nat
     \<Rightarrow> int \<times> nat option \<times> nat option \<Rightarrow> (int \<times> nat option \<times> nat option) option" where
  "tipScanStep tipElements ei k i s =
     do {
       ei_i \<leftarrow> elem2 ei i;
       k_i \<leftarrow> elem2 k i;
       Some (if ei_i \<in> set tipElements
             then (fst s + 1, Some k_i, snd (snd s))
             else (fst s, fst (snd s), Some k_i))
     }"

text \<open>
  The average gap of the tip element: over its two faces and the nodes of each face that are not
  tip nodes, \<^verbatim>\<open>averageGap += (-pow(-1,kf)) * Dot( disp[node], NbarTip )/2\<close>.
\<close>

definition tipAverageGap :: "junction_domain \<Rightarrow> nat \<Rightarrow> real" where
  "tipAverageGap domain tipElmt =
     (let elemsToFaces = faceList domain;
          numNodesPerFace = nodeList_sizeOfArray domain (elemsToFaces tipElmt 0);
          NbarTip = Normalize (R1Tensor_minus (faceNormal domain (elemsToFaces tipElmt 0))
                                 (faceNormal domain (elemsToFaces tipElmt 1)))
      in fold (\<lambda>kf. fold (\<lambda>a averageGap.
                            let node = nodeList domain (elemsToFaces tipElmt kf) a
                            in if node \<notin> set (getTipNodes domain)
                               then averageGap
                                    + (- std_pow (- 1) (real kf))
                                      * Dot (totalDisplacement domain node) NbarTip / 2
                               else averageGap)
                      [0..<numNodesPerFace])
           [0..<2] 0.0)"

text \<open>
  The pressure gradient of the viscosity-dominated tip asymptote, from the elastic constants,
  the injection rate and the elapsed time.
\<close>

definition tipGradP :: "junction_domain \<Rightarrow> real \<Rightarrow> real" where
  "tipGradP domain averageGap =
     (let shearModulus = defaultShearModulus domain;
          bulkModulus = defaultBulkModulus domain;
          viscosity = defaultViscosity domain;
          injectionRate = sourceTerm_scale domain;
          q0 = 2.0 * \<bar>injectionRate\<bar> / 1000;
          totalTime = getTotalTime domain;
          nu = (1.5 * bulkModulus - shearModulus) / (3.0 * bulkModulus + shearModulus);
          E = (9.0 * bulkModulus * shearModulus) / (3.0 * bulkModulus + shearModulus);
          Eprime = E / (1.0 - nu * nu);
          mup = 12.0 * viscosity;
          Lm = std_pow (Eprime * std_pow q0 3.0 * std_pow totalTime 4.0 / mup) (1.0 / 6.0);
          gamma_m0 = 0.616;
          velocity = 2.0 / 3.0 * Lm * gamma_m0 / totalTime;
          Betam = std_pow 2.0 (1.0 / 3.0) * std_pow 3.0 (5.0 / 6.0);
          coeff = - std_pow 6.0 (- 2.0 / 3.0) * std_pow (Eprime * Eprime * mup * velocity) (1.0 / 3.0)
      in - 1.0 / 3.0 * coeff * std_pow Betam 2.0 * std_pow (Eprime / mup / velocity) (- 2.0 / 3.0)
         * std_pow averageGap (- 2.0))"

text \<open>
  The override of the flux on the edge between the channel element and the tip element. The
  state is \<^verbatim>\<open>(buffers, fluxVal, dFlux_dP, dFlux_dAper)\<close>. The override fires when the tip has
  passed one mesh size, the viscosity is at least \<open>2.0e-3\<close> and exactly one element is counted
  as a tip element.
\<close>

definition tipOverride ::
  "junction_domain \<Rightarrow> nat list \<Rightarrow> nat \<Rightarrow> real \<Rightarrow> nat \<Rightarrow> real \<Rightarrow> real \<Rightarrow> nat \<Rightarrow> nat \<times> nat \<Rightarrow> nat \<times> nat
     \<Rightarrow> junction_buffers \<times> real \<times> (real \<times> real) \<times> (real \<times> real)
     \<Rightarrow> (junction_buffers \<times> real \<times> (real \<times> real) \<times> (real \<times> real)) option" where
  "tipOverride domain tipElements numFluxElems dt iconn mobility dMobility_dP k_up ei k st =
     (let tipLoc = getConvergedTipLoc domain;
          meshSize = getMeshSize domain;
          viscosity = defaultViscosity domain
      in if tipLoc > 1.0 * meshSize
         then if viscosity \<ge> 0.002
              then do {
                scan \<leftarrow> fold_option (tipScanStep tipElements ei k) [0..<numFluxElems] (0, None, None);
                if fst scan = 1
                then do {
                  tipElmtIndex \<leftarrow> fst (snd scan);
                  channelElmtIndex \<leftarrow> snd (snd scan);
                  tipElmt \<leftarrow> elem2 ei tipElmtIndex;
                  channelElmt \<leftarrow> elem2 ei channelElmtIndex;
                  let averageGap = tipAverageGap domain tipElmt;
                  let edgeIndex = fractureConnectorEdgesToEdges domain iconn;
                  let edgeLength = calculateLength_L2_Norm domain edgeIndex;
                  let gradP = tipGradP domain averageGap;
                  let modifiedFluxVal = dt * mobility * edgeLength / 12.0 * std_pow averageGap 3.0 * gradP;
                  let out = fst st;
                  let flux1 = (flux out)(tipElmtIndex := flux out tipElmtIndex - 0.0);
                  let flux2 = flux1(channelElmtIndex := flux1 channelElmtIndex + modifiedFluxVal);
                  let m = dt * dMobility_dP * edgeLength / 12.0 * std_pow averageGap 3.0 * gradP;
                  let modifieddFlux_dP = (if k_up = 0 then (m, 0) else (0, m));
                  let J = fluxJacobian out;
                  let J1 = J(tipElmtIndex := (J tipElmtIndex)(tipElmtIndex := J tipElmtIndex tipElmtIndex - 0.0));
                  let J2 = J1(tipElmtIndex := (J1 tipElmtIndex)(channelElmtIndex := J1 tipElmtIndex channelElmtIndex - 0.0));
                  d_tip \<leftarrow> elem2 modifieddFlux_dP tipElmtIndex;
                  let J3 = J2(channelElmtIndex := (J2 channelElmtIndex)(tipElmtIndex := J2 channelElmtIndex tipElmtIndex + d_tip));
                  d_channel \<leftarrow> elem2 modifieddFlux_dP channelElmtIndex;
                  let J4 = J3(channelElmtIndex := (J3 channelElmtIndex)(channelElmtIndex := J3 channelElmtIndex channelElmtIndex + d_channel));
                  Some (out\<lparr>flux := flux2, fluxJacobian := J4\<rparr>, 0.0, (0.0, 0.0), (0.0, 0.0))
                }
                else Some st
              }
              else Some st
         else Some st)"

subsection \<open>The kernel\<close>










section \<open>Two-phase flow solver\<close>

subsection \<open>Constants of the solver's header\<close>

text \<open>
  The header of \<^verbatim>\<open>TwoPhaseBase\<close>, which declares \<^verbatim>\<open>NUM_PHASES\<close>, \<^verbatim>\<open>RowOffset\<close> and
  \<^verbatim>\<open>ColOffset\<close>, is not among the sources.
\<close>

text \<open>
  Modelled from the spec: \<^verbatim>\<open>NUM_PHASES\<close> is missing. The solver has two phases, one
  wetting and one non-wetting; the source sets two degrees of freedom per cell and checks
  \<^verbatim>\<open>numFluidPhases() != 2\<close>.
\<close>

definition NUM_PHASES :: nat where
  "NUM_PHASES = 2"

text \<open>
  Modelled from the spec: \<^verbatim>\<open>RowOffset::WETTING\<close> is missing; "wetting phase \<rightarrow> row 0".
\<close>

definition RowOffset_WETTING :: nat where
  "RowOffset_WETTING = 0"

text \<open>
  Modelled from the spec: \<^verbatim>\<open>RowOffset::NONWETTING\<close> is missing; "non-wetting \<rightarrow> row 1".
\<close>

definition RowOffset_NONWETTING :: nat where
  "RowOffset_NONWETTING = 1"

text \<open>
  Modelled from the spec: \<^verbatim>\<open>ColOffset::DPRES\<close> is missing; the columns are "a fixed
  {pressure, saturation} column offset pair", the pressure first.
\<close>

definition ColOffset_DPRES :: nat where
  "ColOffset_DPRES = 0"

text \<open>
  Modelled from the spec: \<^verbatim>\<open>ColOffset::DSAT\<close> is missing; the saturation is the second column
  of the pair.
\<close>

definition ColOffset_DSAT :: nat where
  "ColOffset_DSAT = 1"

subsection \<open>Bounds check of a candidate solution\<close>

text \<open>
  The primary unknowns of the cells of one element sub-region, as the solver's view accessors
  \<^verbatim>\<open>m_pressure[er][esr]\<close>, \<^verbatim>\<open>m_deltaPressure[er][esr]\<close>, \<^verbatim>\<open>m_phaseSat[er][esr]\<close> and
  \<^verbatim>\<open>m_deltaPhaseSat[er][esr]\<close> give them, with the number of cells \<^verbatim>\<open>subRegion.size()\<close>.
\<close>

record cell_fields =
  subRegion_size :: nat
  pressure :: "nat \<Rightarrow> real"
  deltaPressure :: "nat \<Rightarrow> real"
  phaseSat :: "nat \<Rightarrow> nat \<Rightarrow> real"
  deltaPhaseSat :: "nat \<Rightarrow> nat \<Rightarrow> real"

text \<open>
  \<^verbatim>\<open>CheckSystemSolution\<close> reads in addition the degree-of-freedom numbers and the ghost ranks
  of the cells.
\<close>

record check_subRegion = cell_fields +
  elemDofNumber :: "nat \<Rightarrow> nat"
  elemGhostRank :: "nat \<Rightarrow> int"

text \<open>
  The candidate solution, a \<^verbatim>\<open>ParallelVector\<close>: the local values that
  \<^verbatim>\<open>extractLocalVector\<close> returns and the map \<^verbatim>\<open>getLocalRowID\<close> from a global row to its
  local index.
\<close>

record ParallelVector =
  extractLocalVector :: "nat \<Rightarrow> real"
  getLocalRowID :: "nat \<Rightarrow> nat"

text \<open>
  What one rank holds when it enters \<^verbatim>\<open>CheckSystemSolution\<close>: the sub-regions of its mesh,
  which \<^verbatim>\<open>applyToSubRegionsComplete\<close> visits in turn, and its part of the solution.
\<close>

record rank_state =
  rank_subRegions :: "check_subRegion list"
  rank_solution :: ParallelVector

text \<open>The locals \<^verbatim>\<open>newPres\<close> and \<^verbatim>\<open>newPhaseSat\<close> of the loop body.\<close>

definition newPres :: "check_subRegion \<Rightarrow> ParallelVector \<Rightarrow> real \<Rightarrow> nat \<Rightarrow> real" where
  "newPres sr solution scalingFactor ei =
     (let localSolution = extractLocalVector solution;
          lid = getLocalRowID solution (elemDofNumber sr ei + ColOffset_DPRES)
      in pressure sr ei + deltaPressure sr ei + scalingFactor * localSolution lid)"

definition newPhaseSat_candidate :: "check_subRegion \<Rightarrow> ParallelVector \<Rightarrow> real \<Rightarrow> nat \<Rightarrow> real" where
  "newPhaseSat_candidate sr solution scalingFactor ei =
     (let localSolution = extractLocalVector solution;
          lid = getLocalRowID solution (elemDofNumber sr ei + ColOffset_DSAT)
      in phaseSat sr ei 0 + deltaPhaseSat sr ei 0 + scalingFactor * localSolution lid)"

text \<open>
  The body of the loop over the cells: a ghost cell returns at once, any other cell clears
  \<^verbatim>\<open>localCheck\<close> when its pressure or its saturation leaves the bounds.
\<close>

definition CheckSystemSolution_cell ::
  "check_subRegion \<Rightarrow> ParallelVector \<Rightarrow> real \<Rightarrow> nat \<Rightarrow> int \<Rightarrow> int" where
  "CheckSystemSolution_cell sr solution scalingFactor ei localCheck =
     (if elemGhostRank sr ei \<ge> 0 then localCheck
      else let localCheck1 = (if newPres sr solution scalingFactor ei < 0.0 then 0 else localCheck)
           in if newPhaseSat_candidate sr solution scalingFactor ei < 0.0
                 \<or> newPhaseSat_candidate sr solution scalingFactor ei > 1.0
              then 0 else localCheck1)"

text \<open>The value of \<^verbatim>\<open>localCheck\<close> of one rank after the loops over its sub-regions and cells.\<close>

definition CheckSystemSolution_local :: "rank_state \<Rightarrow> real \<Rightarrow> int" where
  "CheckSystemSolution_local r scalingFactor =
     fold (\<lambda>sr. fold (CheckSystemSolution_cell sr (rank_solution r) scalingFactor)
                   [0..<subRegion_size sr])
       (rank_subRegions r) 1"

text \<open>
  Modelled from the spec: \<^verbatim>\<open>MpiWrapper::Min\<close> is not among the sources; "the global check is
  the logical AND (min) across all cells/ranks". Every rank passes its own value and receives
  the minimum over its own and the other ranks' values.
\<close>

definition MpiWrapper_Min :: "int \<Rightarrow> int list \<Rightarrow> int" where
  "MpiWrapper_Min own others = fold min others own"

text \<open>
  \<^verbatim>\<open>CheckSystemSolution\<close> on one rank, given the states of the other ranks; the \<^verbatim>\<open>int\<close>
  \<^verbatim>\<open>globalCheck\<close> is returned as a \<^verbatim>\<open>bool\<close>.
\<close>

definition CheckSystemSolution :: "rank_state \<Rightarrow> rank_state list \<Rightarrow> real \<Rightarrow> bool" where
  "CheckSystemSolution self others scalingFactor =
     (let localCheck = CheckSystemSolution_local self scalingFactor;
          globalCheck = MpiWrapper_Min localCheck
                          (map (\<lambda>r. CheckSystemSolution_local r scalingFactor) others)
      in globalCheck \<noteq> 0)"

text \<open>
  A rank for evaluation: one sub-region of three cells, the last one a ghost. The cells own the
  rows \<open>0, 1\<close>, \<open>2, 3\<close> and \<open>4, 5\<close> of the solution; the pressures are \<open>p\<close>, \<open>1\<close> and \<open>- 9\<close>, the
  saturations of phase \<open>0\<close> are \<open>s\<close>, \<open>1\<close> and \<open>7\<close>, no change has been accepted so far, and the
  candidate solution is zero.
\<close>

definition example_subRegion :: "real \<Rightarrow> real \<Rightarrow> check_subRegion" where
  "example_subRegion p s =
     \<lparr>subRegion_size = 3,
      pressure = (\<lambda>ei. if ei = 0 then p else if ei = 1 then 1 else - 9),
      deltaPressure = (\<lambda>ei. 0),
      phaseSat = (\<lambda>ei ip. if ip = 0 then (if ei = 0 then s else if ei = 1 then 1 else 7)
                           else (if ei = 0 then 1 - s else if ei = 1 then 0 else - 6)),
      deltaPhaseSat = (\<lambda>ei ip. 0),
      elemDofNumber = (\<lambda>ei. 2 * ei),
      elemGhostRank = (\<lambda>ei. if ei = 2 then 0 else - 1)\<rparr>"

definition example_rank :: "real \<Rightarrow> real \<Rightarrow> rank_state" where
  "example_rank p s =
     \<lparr>rank_subRegions = [example_subRegion p s],
      rank_solution = \<lparr>extractLocalVector = (\<lambda>lid. 0), getLocalRowID = (\<lambda>row. row)\<rparr>\<rparr>"


subsection \<open>Initialisation of the phase-to-row map\<close>

text \<open>
  What \<^verbatim>\<open>InitializePreSubGroups\<close> asks of the two constitutive models: the number of fluid
  phases and the name of each phase, and of the relative permeability model its index in the
  parent group.
\<close>

record MultiFluidBase =
  fluid_numFluidPhases :: nat
  fluid_phaseName :: "nat \<Rightarrow> string"

record RelativePermeabilityBase =
  relPerm_numFluidPhases :: nat
  relPerm_phaseName :: "nat \<Rightarrow> string"
  relPerm_getIndexInParent :: nat

text \<open>The members of the solver that the initialisation reads and writes.\<close>

record TwoPhaseBase =
  m_fluidName :: string
  m_relPermName :: string
  m_relPermIndex :: nat
  m_phaseToRow :: "nat list"

text \<open>
  The fatal errors of \<^verbatim>\<open>GEOSX_ERROR_IF\<close>, in the order of the checks, with the names that their
  messages carry.
\<close>

datatype configuration_error =
  RelPermNotFound string
  | InvalidNumberOfFluidPhases string
  | NumberOfFluidPhasesDiffers string string
  | PhaseNameMismatch string string string string
  | PhaseNamesNotAccepted

text \<open>\<^verbatim>\<open>array1d::resize\<close> keeps the entries that fit and fills up with zeros.\<close>

definition array1d_resize :: "nat \<Rightarrow> nat list \<Rightarrow> nat list" where
  "array1d_resize n xs = take n xs @ replicate (n - length xs) 0"

text \<open>
  \<^verbatim>\<open>InitializePreSubGroups\<close>. The argument \<open>relPermPtr\<close> is what the constitutive manager returns
  for \<^verbatim>\<open>m_relPermName\<close>, \<open>None\<close> for the null pointer. The fluid model has been resolved by the
  initialisation of the base class, which runs first and is outside the sources at hand. The
  final loop over the mesh bodies resizes the second dimension of the fields to
  \<^verbatim>\<open>NUM_PHASES\<close> and leaves the solver's members alone.
\<close>

definition InitializePreSubGroups ::
  "TwoPhaseBase \<Rightarrow> MultiFluidBase \<Rightarrow> RelativePermeabilityBase option
     \<Rightarrow> configuration_error + TwoPhaseBase" where
  "InitializePreSubGroups solver fluid relPermPtr =
     (case relPermPtr of
        None \<Rightarrow> Inl (RelPermNotFound (m_relPermName solver))
      | Some relPerm \<Rightarrow>
          let solver1 = solver\<lparr>m_relPermIndex := relPerm_getIndexInParent relPerm\<rparr>
          in if fluid_numFluidPhases fluid \<noteq> 2
             then Inl (InvalidNumberOfFluidPhases (m_fluidName solver1))
             else if fluid_numFluidPhases fluid \<noteq> relPerm_numFluidPhases relPerm
             then Inl (NumberOfFluidPhasesDiffers (m_fluidName solver1) (m_relPermName solver1))
             else if fluid_numFluidPhases fluid \<noteq> NUM_PHASES
             then Inl (NumberOfFluidPhasesDiffers (m_fluidName solver1) (m_relPermName solver1))
             else case find (\<lambda>ip. fluid_phaseName fluid ip \<noteq> relPerm_phaseName relPerm ip)
                         [0..<NUM_PHASES] of
                    Some ip \<Rightarrow>
                      Inl (PhaseNameMismatch (fluid_phaseName fluid ip) (m_fluidName solver1)
                             (relPerm_phaseName relPerm ip) (m_relPermName solver1))
                  | None \<Rightarrow>
                      let sat = (if (fluid_phaseName fluid 0 = ''oil'' \<and> fluid_phaseName fluid 1 = ''gas'')
                                    \<or> (fluid_phaseName fluid 1 = ''oil'' \<and> fluid_phaseName fluid 0 = ''water'')
                                 then (0, 1)
                                 else if (fluid_phaseName fluid 1 = ''oil'' \<and> fluid_phaseName fluid 0 = ''gas'')
                                    \<or> (fluid_phaseName fluid 0 = ''oil'' \<and> fluid_phaseName fluid 1 = ''water'')
                                 then (1, 0)
                                 else (- 1, - 1));
                          wettingPhaseSat = (fst sat :: int);
                          nonWettingPhaseSat = (snd sat :: int)
                      in if wettingPhaseSat = - 1 \<or> nonWettingPhaseSat = - 1
                         then Inl PhaseNamesNotAccepted
                         else Inr (solver1\<lparr>m_phaseToRow :=
                                     (array1d_resize NUM_PHASES (m_phaseToRow solver1))
                                       [nat wettingPhaseSat := RowOffset_WETTING,
                                        nat nonWettingPhaseSat := RowOffset_NONWETTING]\<rparr>))"

text \<open>
  The models of the scenario: a fluid with the phases water and oil, a relative permeability
  model with the same phases in the same order, and one with the phases oil and water.
\<close>

definition example_solver :: TwoPhaseBase where
  "example_solver =
     \<lparr>m_fluidName = ''fluid'', m_relPermName = ''relperm'', m_relPermIndex = 0, m_phaseToRow = []\<rparr>"

definition example_fluid :: MultiFluidBase where
  "example_fluid =
     \<lparr>fluid_numFluidPhases = 2, fluid_phaseName = (\<lambda>ip. if ip = 0 then ''water'' else ''oil'')\<rparr>"

definition example_relPerm :: RelativePermeabilityBase where
  "example_relPerm =
     \<lparr>relPerm_numFluidPhases = 2,
      relPerm_phaseName = (\<lambda>ip. if ip = 0 then ''water'' else ''oil''),
      relPerm_getIndexInParent = 4\<rparr>"

definition example_relPerm_swapped :: RelativePermeabilityBase where
  "example_relPerm_swapped =
     \<lparr>relPerm_numFluidPhases = 2,
      relPerm_phaseName = (\<lambda>ip. if ip = 0 then ''oil'' else ''water''),
      relPerm_getIndexInParent = 4\<rparr>"

subsection \<open>State update\<close>

text \<open>
  The fields of one element sub-region that \<^verbatim>\<open>UpdateState\<close> touches: the primary unknowns
  (\<^typ>\<open>cell_fields\<close>), the auxiliary fields registered by the solver, and the fields of the
  constitutive models attached to the sub-region (fluid, solid, relative permeability), which
  are indexed by cell, quadrature point and, where it applies, phase.
\<close>

record dataGroup = cell_fields +
  newPhaseSat :: "nat \<Rightarrow> nat \<Rightarrow> real"
  phaseMobility :: "nat \<Rightarrow> nat \<Rightarrow> real"
  dPhaseMobility_dPressure :: "nat \<Rightarrow> nat \<Rightarrow> real"
  dPhaseMobility_dSaturation :: "nat \<Rightarrow> nat \<Rightarrow> real"
  phaseDensity :: "nat \<Rightarrow> nat \<Rightarrow> nat \<Rightarrow> real"
  dPhaseDensity_dPressure :: "nat \<Rightarrow> nat \<Rightarrow> nat \<Rightarrow> real"
  phaseViscosity :: "nat \<Rightarrow> nat \<Rightarrow> nat \<Rightarrow> real"
  dPhaseViscosity_dPressure :: "nat \<Rightarrow> nat \<Rightarrow> nat \<Rightarrow> real"
  poreVolumeMultiplier :: "nat \<Rightarrow> nat \<Rightarrow> real"
  dPVMult_dPres :: "nat \<Rightarrow> nat \<Rightarrow> real"
  phaseRelPerm :: "nat \<Rightarrow> nat \<Rightarrow> nat \<Rightarrow> real"
  dPhaseRelPerm_dPhaseVolFraction :: "nat \<Rightarrow> nat \<Rightarrow> nat \<Rightarrow> nat \<Rightarrow> real"

text \<open>
  Modelled from the spec: the fluid model is not among the sources; "each exposes a pure
  evaluate(state) \<rightarrow> (value, \<partial>/\<partial>pressure, \<partial>/\<partial>saturation) contract". What the fluid model
  evaluates at one point: the density and the viscosity of each phase and their pressure
  derivatives.
\<close>

record fluid_point =
  point_density :: "nat \<Rightarrow> real"
  point_dDensity_dPressure :: "nat \<Rightarrow> real"
  point_viscosity :: "nat \<Rightarrow> real"
  point_dViscosity_dPressure :: "nat \<Rightarrow> real"

text \<open>
  Modelled from the spec: the constitutive models are not among the sources; "each exposes a
  pure evaluate(state) \<rightarrow> (value, \<partial>/\<partial>pressure, \<partial>/\<partial>saturation) contract". The fluid model maps
  pressure, temperature and composition to a \<^typ>\<open>fluid_point\<close>; the solid model maps the
  pressure to the pore-volume multiplier and its derivative; the relative permeability model
  maps the phase volume fractions to the relative permeability of each phase and its
  derivatives.
\<close>

record constitutive_laws =
  fluid_evaluate :: "real \<Rightarrow> real \<Rightarrow> (nat \<Rightarrow> real) \<Rightarrow> fluid_point"
  solid_evaluate :: "real \<Rightarrow> real \<times> real"
  relPerm_evaluate :: "(nat \<Rightarrow> real) \<Rightarrow> (nat \<Rightarrow> real) \<times> (nat \<Rightarrow> nat \<Rightarrow> real)"

text \<open>
  Modelled from the spec: \<^verbatim>\<open>MultiFluidBase::PointUpdate\<close> is not among the sources. It stores
  what the fluid model evaluates at the given pressure, temperature and composition in the
  fluid fields of cell \<open>k\<close> and quadrature point \<open>q\<close>.
\<close>

definition PointUpdate ::
  "constitutive_laws \<Rightarrow> real \<Rightarrow> real \<Rightarrow> (nat \<Rightarrow> real) \<Rightarrow> nat \<Rightarrow> nat \<Rightarrow> dataGroup \<Rightarrow> dataGroup" where
  "PointUpdate laws pres temperature composition k q g =
     (let r = fluid_evaluate laws pres temperature composition
      in g\<lparr>phaseDensity := (phaseDensity g)(k := (phaseDensity g k)(q := point_density r)),
            dPhaseDensity_dPressure :=
              (dPhaseDensity_dPressure g)
                (k := (dPhaseDensity_dPressure g k)(q := point_dDensity_dPressure r)),
            phaseViscosity := (phaseViscosity g)(k := (phaseViscosity g k)(q := point_viscosity r)),
            dPhaseViscosity_dPressure :=
              (dPhaseViscosity_dPressure g)
                (k := (dPhaseViscosity_dPressure g k)(q := point_dViscosity_dPressure r))\<rparr>)"

text \<open>
  Modelled from the spec: \<^verbatim>\<open>ConstitutiveBase::StateUpdatePointPressure\<close> is not among the
  sources. It stores what the solid model evaluates at the given pressure in the solid fields
  of cell \<open>k\<close> and quadrature point \<open>q\<close>.
\<close>

definition StateUpdatePointPressure ::
  "constitutive_laws \<Rightarrow> real \<Rightarrow> nat \<Rightarrow> nat \<Rightarrow> dataGroup \<Rightarrow> dataGroup" where
  "StateUpdatePointPressure laws pres k q g =
     (let r = solid_evaluate laws pres
      in g\<lparr>poreVolumeMultiplier :=
              (poreVolumeMultiplier g)(k := (poreVolumeMultiplier g k)(q := fst r)),
            dPVMult_dPres := (dPVMult_dPres g)(k := (dPVMult_dPres g k)(q := snd r))\<rparr>)"

text \<open>
  Modelled from the spec: \<^verbatim>\<open>RelativePermeabilityBase::BatchUpdate\<close> is not among the sources.
  For every cell of the sub-region it stores what the relative permeability model evaluates at
  the phase volume fractions of the cell, at the quadrature point \<open>0\<close> that the solver reads.
\<close>

definition BatchUpdate :: "constitutive_laws \<Rightarrow> (nat \<Rightarrow> nat \<Rightarrow> real) \<Rightarrow> dataGroup \<Rightarrow> dataGroup" where
  "BatchUpdate laws phaseVolFraction g =
     fold (\<lambda>k g. let r = relPerm_evaluate laws (phaseVolFraction k)
                 in g\<lparr>phaseRelPerm := (phaseRelPerm g)(k := (phaseRelPerm g k)(0 := fst r)),
                       dPhaseRelPerm_dPhaseVolFraction :=
                         (dPhaseRelPerm_dPhaseVolFraction g)
                           (k := (dPhaseRelPerm_dPhaseVolFraction g k)(0 := snd r))\<rparr>)
       [0..<subRegion_size g] g"

text \<open>
  \<^verbatim>\<open>PhaseMobilityKernel\<close> is declared in a header that is not among the sources. The
  specification gives its contract: "phase mobility = relperm \<times> density / viscosity plus its
  partials w.r.t. pressure and saturation via the chain rule". All fields are read at the
  quadrature point \<open>0\<close>.
\<close>

text \<open>
  Modelled from the spec: the mobility that \<^verbatim>\<open>PhaseMobilityKernel\<close> computes for cell \<open>a\<close> and
  phase \<open>ip\<close>, "relperm \<times> density / viscosity".
\<close>

definition phaseMobility_value :: "dataGroup \<Rightarrow> nat \<Rightarrow> nat \<Rightarrow> real" where
  "phaseMobility_value g a ip =
     phaseRelPerm g a 0 ip * phaseDensity g a 0 ip / phaseViscosity g a 0 ip"

text \<open>
  Modelled from the spec: the partial of the mobility of \<^verbatim>\<open>PhaseMobilityKernel\<close> with respect
  to the pressure, by the chain rule through density and viscosity.
\<close>

definition dPhaseMobility_dPressure_value :: "dataGroup \<Rightarrow> nat \<Rightarrow> nat \<Rightarrow> real" where
  "dPhaseMobility_dPressure_value g a ip =
     phaseRelPerm g a 0 ip
       * (dPhaseDensity_dPressure g a 0 ip / phaseViscosity g a 0 ip
          - phaseDensity g a 0 ip * dPhaseViscosity_dPressure g a 0 ip
            / (phaseViscosity g a 0 ip * phaseViscosity g a 0 ip))"

text \<open>
  Modelled from the spec: the partial of the mobility of \<^verbatim>\<open>PhaseMobilityKernel\<close> with respect
  to the saturation of the phase, by the chain rule through the relative permeability.
\<close>

definition dPhaseMobility_dSaturation_value :: "dataGroup \<Rightarrow> nat \<Rightarrow> nat \<Rightarrow> real" where
  "dPhaseMobility_dSaturation_value g a ip =
     dPhaseRelPerm_dPhaseVolFraction g a 0 ip ip * phaseDensity g a 0 ip / phaseViscosity g a 0 ip"

text \<open>
  Modelled from the spec: \<^verbatim>\<open>PhaseMobilityKernel::Compute\<close> is missing; it stores the three
  values in the mobility fields of cell \<open>a\<close> and phase \<open>ip\<close>.
\<close>

definition PhaseMobilityKernel_Compute :: "nat \<Rightarrow> nat \<Rightarrow> dataGroup \<Rightarrow> dataGroup" where
  "PhaseMobilityKernel_Compute a ip g =
     g\<lparr>phaseMobility := (phaseMobility g)(a := (phaseMobility g a)(ip := phaseMobility_value g a ip)),
       dPhaseMobility_dPressure :=
         (dPhaseMobility_dPressure g)
           (a := (dPhaseMobility_dPressure g a)(ip := dPhaseMobility_dPressure_value g a ip)),
       dPhaseMobility_dSaturation :=
         (dPhaseMobility_dSaturation g)
           (a := (dPhaseMobility_dSaturation g a)(ip := dPhaseMobility_dSaturation_value g a ip))\<rparr>"

text \<open>
  Modelled from the spec: \<^verbatim>\<open>PhaseMobilityKernel::Launch\<close> is missing; it runs the step for
  every cell below the given size and every phase.
\<close>

definition PhaseMobilityKernel_Launch :: "nat \<Rightarrow> dataGroup \<Rightarrow> dataGroup" where
  "PhaseMobilityKernel_Launch n g =
     fold (\<lambda>a. fold (PhaseMobilityKernel_Compute a) [0..<NUM_PHASES]) [0..<n] g"

text \<open>
  The four stages of the solver, from the source. Each loop
  \<^verbatim>\<open>forAll< serialPolicy >( dataGroup->size(), ... )\<close> folds its body over the cells.
  \<^verbatim>\<open>UpdateFluidModel\<close> evaluates the fluid at \<^verbatim>\<open>pres[a] + dPres[a]\<close>, the temperature
  \<open>293.15\<close> and a zero composition.
\<close>

definition UpdateFluidModel :: "constitutive_laws \<Rightarrow> dataGroup \<Rightarrow> dataGroup" where
  "UpdateFluidModel laws dataGroup =
     (let dummyTemperature = 293.15;
          dummyCompFrac = (\<lambda>ic. 0)
      in fold (\<lambda>a g. PointUpdate laws (pressure g a + deltaPressure g a) dummyTemperature
                       dummyCompFrac a 0 g)
           [0..<subRegion_size dataGroup] dataGroup)"

definition UpdateSolidModel :: "constitutive_laws \<Rightarrow> dataGroup \<Rightarrow> dataGroup" where
  "UpdateSolidModel laws dataGroup =
     fold (\<lambda>a g. StateUpdatePointPressure laws (pressure g a + deltaPressure g a) a 0 g)
       [0..<subRegion_size dataGroup] dataGroup"

text \<open>
  \<^verbatim>\<open>UpdateRelPermModel\<close> first writes \<^verbatim>\<open>newPhaseSat[a][ip] = phaseSat[a][ip] + dPhaseSat[a][ip]\<close>
  for every cell and phase, then updates the relative permeability model with it.
\<close>

definition UpdateRelPermModel :: "constitutive_laws \<Rightarrow> dataGroup \<Rightarrow> dataGroup" where
  "UpdateRelPermModel laws dataGroup =
     (let numPhases = NUM_PHASES;
          g1 = fold (\<lambda>a. fold (\<lambda>ip g. g\<lparr>newPhaseSat :=
                                          (newPhaseSat g)
                                            (a := (newPhaseSat g a)
                                               (ip := phaseSat g a ip + deltaPhaseSat g a ip))\<rparr>)
                            [0..<numPhases])
                 [0..<subRegion_size dataGroup] dataGroup
      in BatchUpdate laws (newPhaseSat g1) g1)"

definition UpdatePhaseMobility :: "dataGroup \<Rightarrow> dataGroup" where
  "UpdatePhaseMobility dataGroup = PhaseMobilityKernel_Launch (subRegion_size dataGroup) dataGroup"

text \<open>\<^verbatim>\<open>UpdateState\<close> runs the four stages in turn.\<close>

definition UpdateState :: "constitutive_laws \<Rightarrow> dataGroup \<Rightarrow> dataGroup" where
  "UpdateState laws dataGroup =
     UpdatePhaseMobility (UpdateRelPermModel laws (UpdateSolidModel laws (UpdateFluidModel laws dataGroup)))"

text \<open>
  Constitutive laws and a sub-region of two cells for evaluation: densities \<open>p\<close> and \<open>2 * p\<close>,
  viscosity \<open>2\<close>, a pore-volume multiplier \<open>1 + p\<close>, and relative permeabilities equal to the
  phase volume fractions. Every derived field starts from \<open>9\<close>.
\<close>

definition example_laws :: constitutive_laws where
  "example_laws =
     \<lparr>fluid_evaluate = (\<lambda>p T c. \<lparr>point_density = (\<lambda>ip. if ip = 0 then p else 2 * p),
                                 point_dDensity_dPressure = (\<lambda>ip. if ip = 0 then 1 else 2),
                                 point_viscosity = (\<lambda>ip. 2),
                                 point_dViscosity_dPressure = (\<lambda>ip. 0)\<rparr>),
      solid_evaluate = (\<lambda>p. (1 + p, 1)),
      relPerm_evaluate = (\<lambda>s. (s, \<lambda>ip jp. if ip = jp then 1 else 0))\<rparr>"

definition example_dataGroup :: dataGroup where
  "example_dataGroup =
     \<lparr>subRegion_size = 2,
      pressure = (\<lambda>a. if a = 0 then 10 else 5),
      deltaPressure = (\<lambda>a. 2),
      phaseSat = (\<lambda>a ip. if ip = 0 then 1 / 4 else 3 / 4),
      deltaPhaseSat = (\<lambda>a ip. if ip = 0 then 1 / 4 else - 1 / 4),
      newPhaseSat = (\<lambda>a ip. 9),
      phaseMobility = (\<lambda>a ip. 9),
      dPhaseMobility_dPressure = (\<lambda>a ip. 9),
      dPhaseMobility_dSaturation = (\<lambda>a ip. 9),
      phaseDensity = (\<lambda>a q ip. 9),
      dPhaseDensity_dPressure = (\<lambda>a q ip. 9),
      phaseViscosity = (\<lambda>a q ip. 9),
      dPhaseViscosity_dPressure = (\<lambda>a q ip. 9),
      poreVolumeMultiplier = (\<lambda>a q. 9),
      dPVMult_dPres = (\<lambda>a q. 9),
      phaseRelPerm = (\<lambda>a q ip. 9),
      dPhaseRelPerm_dPhaseVolFraction = (\<lambda>a q ip jp. 9)\<rparr>"

section \<open>Properties of the aperture term\<close>

text \<open>
  C3, as the specification states it: at \<open>aper = aper0 = a\<close> the three integration options
  return the same aperture term and the same derivative. At \<open>a = 1\<close> the derivatives are
  \<open>0\<close>, \<open>3/2\<close> and \<open>3\<close>, so the three results are not equal.
\<close>

theorem C3_same_derivative_counterexample:
  "\<not> (apertureForPermeablityCalculation_0 1 1 = apertureForPermeablityCalculation_1 1 1
      \<and> apertureForPermeablityCalculation_1 1 1 = apertureForPermeablityCalculation_2 1 1)"
  by (simp add: apertureForPermeablityCalculation_0_def apertureForPermeablityCalculation_1_def
      apertureForPermeablityCalculation_2_def)

text \<open>
  C3, amended: at \<open>aper = aper0 = a\<close> the three integration options return the same aperture
  term \<open>a * a * a\<close>; the derivative they return is \<open>0\<close> for option 0, \<open>3/2 * a * a\<close> for
  option 1 and \<open>3 * a * a\<close> for option 2.
\<close>

theorem C3_aperture_term_agrees:
  "fst (apertureForPermeablityCalculation_0 a a) = a * a * a
   \<and> fst (apertureForPermeablityCalculation_1 a a) = a * a * a
   \<and> fst (apertureForPermeablityCalculation_2 a a) = a * a * a
   \<and> snd (apertureForPermeablityCalculation_0 a a) = 0
   \<and> snd (apertureForPermeablityCalculation_1 a a) = 3 / 2 * a * a
   \<and> snd (apertureForPermeablityCalculation_2 a a) = 3 * a * a"
  by (simp add: apertureForPermeablityCalculation_0_def apertureForPermeablityCalculation_1_def
      apertureForPermeablityCalculation_2_def algebra_simps)

section \<open>Properties of the damage model\<close>

lemma history_after_call:
  "m_strainEnergyDensity (snd (calculateActiveStrainEnergyDensity u k q)) k q
     = max (m_strainEnergyDensity u k q) (activeStrainEnergyCandidate u k q)"
  by (simp add: calculateActiveStrainEnergyDensity_def Let_def)

lemma evaluate_trial_mono:
  "m_strainEnergyDensity u k q \<le> m_strainEnergyDensity (evaluate_trial k q u t) k q"
  by (simp add: evaluate_trial_def history_after_call)

lemma evaluate_trials_mono:
  "m_strainEnergyDensity u k q \<le> m_strainEnergyDensity (evaluate_trials k q u ts) k q"
proof (induction ts arbitrary: u)
  case Nil
  show ?case by simp
next
  case (Cons t ts)
  have "m_strainEnergyDensity u k q \<le> m_strainEnergyDensity (evaluate_trial k q u t) k q"
    by (rule evaluate_trial_mono)
  also have "\<dots> \<le> m_strainEnergyDensity (evaluate_trials k q (evaluate_trial k q u t) ts) k q"
    by (rule Cons.IH)
  finally show ?case by simp
qed

lemma evaluate_trials_append:
  "evaluate_trials k q u (ts @ ts') = evaluate_trials k q (evaluate_trials k q u ts) ts'"
  by (induction ts arbitrary: u) simp_all

text \<open>
  C5: the history field is non-decreasing. For every sequence of evaluations at a fixed
  \<open>(k, q)\<close>, the stored \<open>m_strainEnergyDensity(k, q)\<close> after the longer sequence \<open>ts @ ts'\<close> is at
  least its value after the earlier part \<open>ts\<close>; one call returns the updated stored history,
  never lowers it, and leaves the object as it is when the candidate energy does not exceed the
  stored history.
\<close>

theorem C5_history_nondecreasing:
  "m_strainEnergyDensity (evaluate_trials k q u ts) k q
     \<le> m_strainEnergyDensity (evaluate_trials k q u (ts @ ts')) k q
   \<and> fst (calculateActiveStrainEnergyDensity u k q)
       = m_strainEnergyDensity (snd (calculateActiveStrainEnergyDensity u k q)) k q
   \<and> m_strainEnergyDensity u k q
       \<le> m_strainEnergyDensity (snd (calculateActiveStrainEnergyDensity u k q)) k q
   \<and> (activeStrainEnergyCandidate u k q \<le> m_strainEnergyDensity u k q
        \<longrightarrow> snd (calculateActiveStrainEnergyDensity u k q) = u)"
proof (intro conjI)
  show "m_strainEnergyDensity (evaluate_trials k q u ts) k q
     \<le> m_strainEnergyDensity (evaluate_trials k q u (ts @ ts')) k q"
    unfolding evaluate_trials_append by (rule evaluate_trials_mono)
  show "fst (calculateActiveStrainEnergyDensity u k q)
       = m_strainEnergyDensity (snd (calculateActiveStrainEnergyDensity u k q)) k q"
    by (simp add: calculateActiveStrainEnergyDensity_def Let_def)
  show "m_strainEnergyDensity u k q
       \<le> m_strainEnergyDensity (snd (calculateActiveStrainEnergyDensity u k q)) k q"
    by (simp add: history_after_call)
  show "activeStrainEnergyCandidate u k q \<le> m_strainEnergyDensity u k q
        \<longrightarrow> snd (calculateActiveStrainEnergyDensity u k q) = u"
    by (simp add: calculateActiveStrainEnergyDensity_def Let_def)
qed

text \<open>
  The history \<open>20\<close> meets the candidates \<open>7\<close>, \<open>30\<close> and \<open>5\<close>: it stays, rises to \<open>30\<close> and
  stays. A single call with the candidate \<open>11/2\<close> below the history \<open>20\<close> returns \<open>20\<close> and
  changes nothing.
\<close>

theorem C5_history_nondecreasing_witness:
  "m_strainEnergyDensity (evaluate_trials 0 0 (example_damage 0 20) [example_trial 7]) 0 0 = 20
   \<and> m_strainEnergyDensity
        (evaluate_trials 0 0 (example_damage 0 20) ([example_trial 7] @ [example_trial 30, example_trial 5])) 0 0 = 30
   \<and> activeStrainEnergyCandidate (example_damage 0 20) 0 0 = 11 / 2
   \<and> fst (calculateActiveStrainEnergyDensity (example_damage 0 20) 0 0) = 20
   \<and> snd (calculateActiveStrainEnergyDensity (example_damage 0 20) 0 0) = example_damage 0 20"
  using C5_history_nondecreasing [of 0 0 "example_damage 0 20" "[example_trial 7]"
      "[example_trial 30, example_trial 5]"]
  by (simp add: example_damage_def example_trial_def evaluate_trial_def
      calculateActiveStrainEnergyDensity_def activeStrainEnergyCandidate_def Let_def)

lemma degradation_denominator_pos:
  assumes "0 \<le> (d::real)" "d \<le> 1" "0 < m"
  shows "0 < (1 - d)\<^sup>2 + m * d * (1 + 1 * d)"
proof (cases "d = 0")
  case True
  then show ?thesis by simp
next
  case False
  with assms have "0 < d" by simp
  with assms have "0 < m * d * (1 + 1 * d)" by simp
  moreover have "0 \<le> (1 - d)\<^sup>2" by simp
  ultimately show ?thesis by linarith
qed

text \<open>
  C10: for a damage \<open>d = m_damage(k, q)\<close> in \<open>[0, 1]\<close> and a positive ratio
  \<open>m = criticalFractureEnergy / (2 * lengthScale * criticalStrainEnergy)\<close>,
  \<open>GetDegradationValue\<close> returns a value in \<open>[0, 1]\<close>, which is \<open>1\<close> at \<open>d = 0\<close> and \<open>0\<close> at
  \<open>d = 1\<close>.
\<close>

theorem C10_degradation_range:
  assumes "0 \<le> m_damage u k q" and "m_damage u k q \<le> 1"
    and "0 < m_criticalFractureEnergy u / (2 * m_lengthScale u * m_criticalStrainEnergy u)"
  shows "0 \<le> GetDegradationValue u k q \<and> GetDegradationValue u k q \<le> 1
     \<and> (m_damage u k q = 0 \<longrightarrow> GetDegradationValue u k q = 1)
     \<and> (m_damage u k q = 1 \<longrightarrow> GetDegradationValue u k q = 0)"
proof -
  define d where "d = m_damage u k q"
  define m where "m = m_criticalFractureEnergy u / (2 * m_lengthScale u * m_criticalStrainEnergy u)"
  have g: "GetDegradationValue u k q = (1 - d)\<^sup>2 / ((1 - d)\<^sup>2 + m * d * (1 + 1 * d))"
    by (simp add: GetDegradationValue_def Let_def d_def m_def)
  have d: "0 \<le> d" "d \<le> 1" and m: "0 < m" using assms by (simp_all add: d_def m_def)
  have den: "0 < (1 - d)\<^sup>2 + m * d * (1 + 1 * d)" by (rule degradation_denominator_pos [OF d m])
  have extra: "0 \<le> m * d * (1 + 1 * d)" using d m by simp
  have "0 \<le> (1 - d)\<^sup>2 / ((1 - d)\<^sup>2 + m * d * (1 + 1 * d))"
    using den by simp
  moreover have "(1 - d)\<^sup>2 / ((1 - d)\<^sup>2 + m * d * (1 + 1 * d)) \<le> 1"
    using den extra by (simp add: divide_le_eq)
  moreover have "d = 0 \<longrightarrow> (1 - d)\<^sup>2 / ((1 - d)\<^sup>2 + m * d * (1 + 1 * d)) = 1" by simp
  moreover have "d = 1 \<longrightarrow> (1 - d)\<^sup>2 / ((1 - d)\<^sup>2 + m * d * (1 + 1 * d)) = 0" by simp
  ultimately show ?thesis unfolding g d_def [symmetric] by blast
qed

text \<open>With \<open>m = 2\<close>: the value is \<open>1\<close> at \<open>d = 0\<close>, \<open>0\<close> at \<open>d = 1\<close> and \<open>1/7\<close> at \<open>d = 1/2\<close>.\<close>

theorem C10_degradation_range_witness:
  "GetDegradationValue (example_damage 0 2) 0 0 = 1
   \<and> GetDegradationValue (example_damage 1 2) 0 0 = 0
   \<and> GetDegradationValue (example_damage (1 / 2) 2) 0 0 = 1 / 7"
  using C10_degradation_range [of "example_damage 0 2" 0 0]
    C10_degradation_range [of "example_damage 1 2" 0 0]
    C10_degradation_range [of "example_damage (1 / 2) 2" 0 0]
  by (simp add: example_damage_def GetDegradationValue_def Let_def power2_eq_square)

section \<open>Properties of the two-point flux kernel\<close>

lemma jacobianStep_other: "l \<noteq> ke \<Longrightarrow> jacobianStep dt d ke J r l = J r l"
  by (simp add: jacobianStep_def Let_def)

lemma jacobianStep_rows: "jacobianStep dt d ke J (Suc 0) ke = - jacobianStep dt d ke J 0 ke"
  by (simp add: jacobianStep_def Let_def)

lemma jacobian_loop_rows:
  "ke < n \<Longrightarrow>
     fold (jacobianStep dt d) [0..<n] J (Suc 0) ke = - fold (jacobianStep dt d) [0..<n] J 0 ke"
proof (induction n)
  case 0
  then show ?case by simp
next
  case (Suc n)
  show ?case
  proof (cases "ke = n")
    case True
    then show ?thesis by (simp add: jacobianStep_rows)
  next
    case False
    with Suc.prems have "ke < n" by simp
    with Suc.IH False show ?thesis by (simp add: jacobianStep_other)
  qed
qed

text \<open>
  C8: in both two-point \<^verbatim>\<open>Compute\<close> variants, for every stencil entry \<open>ke\<close> the second row of
  the local flux Jacobian is the exact negative of the first:
  \<open>fluxJacobian[1][ke] = - fluxJacobian[0][ke]\<close>.
\<close>

theorem C8_jacobian_rows_antisymmetric:
  assumes "ke < stencilSize"
  shows "fluxJacobian (Compute numElems stencilSize seri sesri sei stencilWeights pres dPres gravCoef
             dens dDens_dPres mob dMob_dPres dt out) 1 ke
         = - fluxJacobian (Compute numElems stencilSize seri sesri sei stencilWeights pres dPres gravCoef
             dens dDens_dPres mob dMob_dPres dt out) 0 ke
     \<and> fluxJacobian (Compute_sameRegion numElems stencilSize stencilElementIndices stencilWeights pres1
             dPres1 gravCoef1 dens1 dDens_dPres1 mob1 dMob_dPres1 dt out) 1 ke
         = - fluxJacobian (Compute_sameRegion numElems stencilSize stencilElementIndices stencilWeights pres1
             dPres1 gravCoef1 dens1 dDens_dPres1 mob1 dMob_dPres1 dt out) 0 ke"
  using assms by (simp add: Compute_def Compute_sameRegion_def Let_def jacobian_loop_rows)

lemma upt_2: "[0..<2] = [0, Suc 0]"
  by (simp add: upt_rec numeral_2_eq_2)

text \<open>
  The example connection with transmissibility \<open>3\<close>: the entry of column \<open>1\<close> is \<open>- 3\<close> in row
  \<open>0\<close> and \<open>3\<close> in row \<open>1\<close>, in both variants.
\<close>

theorem C8_jacobian_rows_antisymmetric_witness:
  "fluxJacobian (Compute 2 2 (\<lambda>ke. 0) (\<lambda>ke. 0) example_stencil (example_weights 3)
       (\<lambda>er esr. example_pres) (\<lambda>er esr ei. 0) (\<lambda>er esr ei. 0) (\<lambda>er esr ei c. 1) (\<lambda>er esr ei c. 0)
       (\<lambda>er esr. example_mob) (\<lambda>er esr ei. 0) 1 zero_buffers) 0 1 = - 3
   \<and> fluxJacobian (Compute 2 2 (\<lambda>ke. 0) (\<lambda>ke. 0) example_stencil (example_weights 3)
       (\<lambda>er esr. example_pres) (\<lambda>er esr ei. 0) (\<lambda>er esr ei. 0) (\<lambda>er esr ei c. 1) (\<lambda>er esr ei c. 0)
       (\<lambda>er esr. example_mob) (\<lambda>er esr ei. 0) 1 zero_buffers) 1 1 = 3
   \<and> fluxJacobian (Compute_sameRegion 2 2 example_stencil (example_weights 3) example_pres (\<lambda>ei. 0)
       (\<lambda>ei. 0) (\<lambda>ei c. 1) (\<lambda>ei c. 0) example_mob (\<lambda>ei. 0) 1 zero_buffers) 0 1 = - 3
   \<and> fluxJacobian (Compute_sameRegion 2 2 example_stencil (example_weights 3) example_pres (\<lambda>ei. 0)
       (\<lambda>ei. 0) (\<lambda>ei c. 1) (\<lambda>ei c. 0) example_mob (\<lambda>ei. 0) 1 zero_buffers) 1 1 = 3"
  using C8_jacobian_rows_antisymmetric [where ke = 1 and stencilSize = 2 and numElems = 2
      and seri = "\<lambda>ke. 0" and sesri = "\<lambda>ke. 0" and sei = example_stencil
      and stencilWeights = "example_weights 3"
      and pres = "\<lambda>er esr. example_pres" and dPres = "\<lambda>er esr ei. 0" and gravCoef = "\<lambda>er esr ei. 0"
      and dens = "\<lambda>er esr ei c. 1" and dDens_dPres = "\<lambda>er esr ei c. 0"
      and mob = "\<lambda>er esr. example_mob" and dMob_dPres = "\<lambda>er esr ei. 0" and dt = 1
      and out = zero_buffers and stencilElementIndices = example_stencil
      and ?pres1.0 = example_pres and ?dPres1.0 = "\<lambda>ei. 0" and ?gravCoef1.0 = "\<lambda>ei. 0"
      and ?dens1.0 = "\<lambda>ei c. 1" and ?dDens_dPres1.0 = "\<lambda>ei c. 0" and ?mob1.0 = example_mob
      and ?dMob_dPres1.0 = "\<lambda>ei. 0"]
  by (simp add: Compute_def Compute_sameRegion_def Let_def upt_2 densityStep_def potentialStep_def
      dFluxStep_def jacobianStep_def example_stencil_def example_weights_def example_pres_def
      example_mob_def zero_buffers_def)

lemma potential_two_cells:
  assumes "w 0 = T" "w (Suc 0) = - T" "g 0 = 0" "g (Suc 0) = 0"
  shows "fst (fold (potentialStep w p g densMean) [0..<2] (0, 0)) = T * (p 0 - p (Suc 0))"
  using assms by (simp add: upt_2 potentialStep_def Let_def algebra_simps)

text \<open>
  C2: for a connection of two cells with no gravity (\<open>gravCoef = 0\<close> at both cells) and the
  stencil weights \<open>T\<close> and \<open>- T\<close>, both \<^verbatim>\<open>Compute\<close> variants write
  \<open>flux[0] = dt * M_up * T * (p1 - p2)\<close>, where \<open>p1\<close> and \<open>p2\<close> are \<^verbatim>\<open>pres + dPres\<close> at the two
  cells and \<open>M_up\<close> is the mobility of the upwind cell: the cell of stencil entry \<open>0\<close> when the
  potential difference \<open>T * (p1 - p2)\<close> is non-negative (a tie included), the cell of entry \<open>1\<close>
  otherwise.
\<close>

theorem C2_two_cell_flux:
  assumes "stencilWeights 0 = T" and "stencilWeights 1 = - T"
    and "gravCoef (seri 0) (sesri 0) (sei 0) = 0" and "gravCoef (seri 1) (sesri 1) (sei 1) = 0"
    and "gravCoef1 (stencilElementIndices 0) = 0" and "gravCoef1 (stencilElementIndices 1) = 0"
  shows "flux (Compute numElems 2 seri sesri sei stencilWeights pres dPres gravCoef
             dens dDens_dPres mob dMob_dPres dt out) 0
         = (let p1 = pres (seri 0) (sesri 0) (sei 0) + dPres (seri 0) (sesri 0) (sei 0);
                p2 = pres (seri 1) (sesri 1) (sei 1) + dPres (seri 1) (sesri 1) (sei 1);
                k_up = (if T * (p1 - p2) \<ge> 0 then 0 else 1);
                M_up = mob (seri k_up) (sesri k_up) (sei k_up)
            in dt * M_up * T * (p1 - p2))
     \<and> flux (Compute_sameRegion numElems 2 stencilElementIndices stencilWeights pres1
             dPres1 gravCoef1 dens1 dDens_dPres1 mob1 dMob_dPres1 dt out) 0
         = (let p1 = pres1 (stencilElementIndices 0) + dPres1 (stencilElementIndices 0);
                p2 = pres1 (stencilElementIndices 1) + dPres1 (stencilElementIndices 1);
                k_up = (if T * (p1 - p2) \<ge> 0 then 0 else 1);
                M_up = mob1 (stencilElementIndices k_up)
            in dt * M_up * T * (p1 - p2))"
proof -
  have a: "fst (fold (potentialStep stencilWeights
                 (\<lambda>ke. pres (seri ke) (sesri ke) (sei ke) + dPres (seri ke) (sesri ke) (sei ke))
                 (\<lambda>ke. gravCoef (seri ke) (sesri ke) (sei ke)) densMean) [0..<2] (0, 0))
           = T * ((pres (seri 0) (sesri 0) (sei 0) + dPres (seri 0) (sesri 0) (sei 0))
                  - (pres (seri 1) (sesri 1) (sei 1) + dPres (seri 1) (sesri 1) (sei 1)))" for densMean
    using assms by (subst potential_two_cells [where T = T]) simp_all
  have b: "fst (fold (potentialStep stencilWeights
                 (\<lambda>ke. pres1 (stencilElementIndices ke) + dPres1 (stencilElementIndices ke))
                 (\<lambda>ke. gravCoef1 (stencilElementIndices ke)) densMean) [0..<2] (0, 0))
           = T * ((pres1 (stencilElementIndices 0) + dPres1 (stencilElementIndices 0))
                  - (pres1 (stencilElementIndices 1) + dPres1 (stencilElementIndices 1)))" for densMean
    using assms by (subst potential_two_cells [where T = T]) simp_all
  show ?thesis
    by (simp add: Compute_def Compute_sameRegion_def Let_def a b)
qed

text \<open>
  The example connection, pressures \<open>10\<close> and \<open>5\<close>. With \<open>T = 3\<close> the first cell is upwind
  (mobility \<open>1\<close>): \<open>flux[0] = 15\<close>. With the weights \<open>- 3\<close> and \<open>3\<close> the potential difference is
  negative and the second cell is upwind (mobility \<open>7\<close>): \<open>flux[0] = - 105\<close>.
\<close>

theorem C2_two_cell_flux_witness:
  "flux (Compute 2 2 (\<lambda>ke. 0) (\<lambda>ke. 0) example_stencil (example_weights 3)
       (\<lambda>er esr. example_pres) (\<lambda>er esr ei. 0) (\<lambda>er esr ei. 0) (\<lambda>er esr ei c. 1) (\<lambda>er esr ei c. 0)
       (\<lambda>er esr. example_mob) (\<lambda>er esr ei. 0) 1 zero_buffers) 0 = 15
   \<and> flux (Compute_sameRegion 2 2 example_stencil (example_weights (- 3)) example_pres (\<lambda>ei. 0)
       (\<lambda>ei. 0) (\<lambda>ei c. 1) (\<lambda>ei c. 0) example_mob (\<lambda>ei. 0) 1 zero_buffers) 0 = - 105"
  using C2_two_cell_flux [where T = 3 and numElems = 2
      and seri = "\<lambda>ke. 0" and sesri = "\<lambda>ke. 0" and sei = example_stencil
      and stencilWeights = "example_weights 3"
      and pres = "\<lambda>er esr. example_pres" and dPres = "\<lambda>er esr ei. 0" and gravCoef = "\<lambda>er esr ei. 0"
      and dens = "\<lambda>er esr ei c. 1" and dDens_dPres = "\<lambda>er esr ei c. 0"
      and mob = "\<lambda>er esr. example_mob" and dMob_dPres = "\<lambda>er esr ei. 0" and dt = 1
      and out = zero_buffers and stencilElementIndices = example_stencil
      and ?pres1.0 = example_pres and ?dPres1.0 = "\<lambda>ei. 0" and ?gravCoef1.0 = "\<lambda>ei. 0"
      and ?dens1.0 = "\<lambda>ei c. 1" and ?dDens_dPres1.0 = "\<lambda>ei c. 0" and ?mob1.0 = example_mob
      and ?dMob_dPres1.0 = "\<lambda>ei. 0"]
    C2_two_cell_flux [where T = "- 3" and numElems = 2
      and seri = "\<lambda>ke. 0" and sesri = "\<lambda>ke. 0" and sei = example_stencil
      and stencilWeights = "example_weights (- 3)"
      and pres = "\<lambda>er esr. example_pres" and dPres = "\<lambda>er esr ei. 0" and gravCoef = "\<lambda>er esr ei. 0"
      and dens = "\<lambda>er esr ei c. 1" and dDens_dPres = "\<lambda>er esr ei c. 0"
      and mob = "\<lambda>er esr. example_mob" and dMob_dPres = "\<lambda>er esr ei. 0" and dt = 1
      and out = zero_buffers and stencilElementIndices = example_stencil
      and ?pres1.0 = example_pres and ?dPres1.0 = "\<lambda>ei. 0" and ?gravCoef1.0 = "\<lambda>ei. 0"
      and ?dens1.0 = "\<lambda>ei c. 1" and ?dDens_dPres1.0 = "\<lambda>ei c. 0" and ?mob1.0 = example_mob
      and ?dMob_dPres1.0 = "\<lambda>ei. 0"]
  by (simp add: Let_def example_stencil_def example_weights_def example_pres_def example_mob_def)

section \<open>Properties of the junction flux kernel\<close>


lemma tipScan_two:
  "fold_option (tipScanStep tipElements ei k) [0..<2] (0, None, None) =
     Some (if fst ei \<in> set tipElements
           then (if snd ei \<in> set tipElements then (2, Some (snd k), None)
                 else (1, Some (fst k), Some (snd k)))
           else (if snd ei \<in> set tipElements then (1, Some (snd k), Some (fst k))
                 else (0, None, Some (snd k))))"
  by (simp add: upt_2 tipScanStep_def elem2_def)


lemma tipOverride_fires_first:
  assumes "getConvergedTipLoc domain > getMeshSize domain" and "defaultViscosity domain \<ge> 0.002"
    and "fst ei \<in> set tipElements" and "snd ei \<notin> set tipElements"
  shows "\<exists>st'. tipOverride domain tipElements 2 dt iconn mobility dMobility_dP k_up ei (0, 1)
              (out, fluxVal, dFlux_dP, dFlux_dAper) = Some st'
          \<and> flux (fst st') = (flux out)(1 := flux out 1
                       + dt * mobility
                         * calculateLength_L2_Norm domain (fractureConnectorEdgesToEdges domain iconn) / 12
                         * std_pow (tipAverageGap domain (fst ei)) 3
                         * tipGradP domain (tipAverageGap domain (fst ei)))
          \<and> fst (snd st') = 0"
  using assms by (simp add: tipOverride_def Let_def tipScan_two elem2_def)

lemma tipOverride_fires_second:
  assumes "getConvergedTipLoc domain > getMeshSize domain" and "defaultViscosity domain \<ge> 0.002"
    and "fst ei \<notin> set tipElements" and "snd ei \<in> set tipElements"
  shows "\<exists>st'. tipOverride domain tipElements 2 dt iconn mobility dMobility_dP k_up ei (0, 1)
              (out, fluxVal, dFlux_dP, dFlux_dAper) = Some st'
          \<and> flux (fst st') = (flux out)(0 := flux out 0
                       + dt * mobility
                         * calculateLength_L2_Norm domain (fractureConnectorEdgesToEdges domain iconn) / 12
                         * std_pow (tipAverageGap domain (snd ei)) 3
                         * tipGradP domain (tipAverageGap domain (snd ei)))
          \<and> fst (snd st') = 0"
  using assms by (simp add: tipOverride_def Let_def tipScan_two elem2_def)




































section \<open>Properties of the bounds check\<close>

lemma cell_check:
  "CheckSystemSolution_cell sr solution scalingFactor ei localCheck =
     (if elemGhostRank sr ei < 0
         \<and> (newPres sr solution scalingFactor ei < 0
            \<or> newPhaseSat_candidate sr solution scalingFactor ei < 0
            \<or> newPhaseSat_candidate sr solution scalingFactor ei > 1)
      then 0 else localCheck)"
  by (auto simp add: CheckSystemSolution_cell_def Let_def)

lemma cells_check:
  "fold (CheckSystemSolution_cell sr solution scalingFactor) [0..<n] localCheck =
     (if \<exists>ei<n. elemGhostRank sr ei < 0
           \<and> (newPres sr solution scalingFactor ei < 0
              \<or> newPhaseSat_candidate sr solution scalingFactor ei < 0
              \<or> newPhaseSat_candidate sr solution scalingFactor ei > 1)
      then 0 else localCheck)"
proof (induction n)
  case 0
  show ?case by simp
next
  case (Suc n)
  have "fold (CheckSystemSolution_cell sr solution scalingFactor) [0..<Suc n] localCheck
          = CheckSystemSolution_cell sr solution scalingFactor n
              (fold (CheckSystemSolution_cell sr solution scalingFactor) [0..<n] localCheck)"
    by simp
  also have "\<dots> = CheckSystemSolution_cell sr solution scalingFactor n
              (if \<exists>ei<n. elemGhostRank sr ei < 0
                   \<and> (newPres sr solution scalingFactor ei < 0
                      \<or> newPhaseSat_candidate sr solution scalingFactor ei < 0
                      \<or> newPhaseSat_candidate sr solution scalingFactor ei > 1)
               then 0 else localCheck)"
    by (simp only: Suc.IH)
  also have "\<dots> = (if \<exists>ei<Suc n. elemGhostRank sr ei < 0
                   \<and> (newPres sr solution scalingFactor ei < 0
                      \<or> newPhaseSat_candidate sr solution scalingFactor ei < 0
                      \<or> newPhaseSat_candidate sr solution scalingFactor ei > 1)
               then 0 else localCheck)"
    unfolding cell_check by (auto simp add: less_Suc_eq)
  finally show ?case .
qed

lemma subRegions_check:
  "fold (\<lambda>sr. fold (CheckSystemSolution_cell sr solution scalingFactor) [0..<subRegion_size sr])
       srs localCheck =
     (if \<exists>sr\<in>set srs. \<exists>ei<subRegion_size sr. elemGhostRank sr ei < 0
           \<and> (newPres sr solution scalingFactor ei < 0
              \<or> newPhaseSat_candidate sr solution scalingFactor ei < 0
              \<or> newPhaseSat_candidate sr solution scalingFactor ei > 1)
      then 0 else localCheck)"
proof (induction srs arbitrary: localCheck)
  case Nil
  show ?case by simp
next
  case (Cons sr srs)
  have "fold (\<lambda>sr. fold (CheckSystemSolution_cell sr solution scalingFactor) [0..<subRegion_size sr])
          (sr # srs) localCheck
        = fold (\<lambda>sr. fold (CheckSystemSolution_cell sr solution scalingFactor) [0..<subRegion_size sr])
            srs (fold (CheckSystemSolution_cell sr solution scalingFactor) [0..<subRegion_size sr] localCheck)"
    by simp
  also have "\<dots> = (if \<exists>sr\<in>set srs. \<exists>ei<subRegion_size sr. elemGhostRank sr ei < 0
           \<and> (newPres sr solution scalingFactor ei < 0
              \<or> newPhaseSat_candidate sr solution scalingFactor ei < 0
              \<or> newPhaseSat_candidate sr solution scalingFactor ei > 1)
      then 0 else fold (CheckSystemSolution_cell sr solution scalingFactor) [0..<subRegion_size sr] localCheck)"
    by (rule Cons.IH)
  also have "\<dots> = (if \<exists>sr\<in>set (sr # srs). \<exists>ei<subRegion_size sr. elemGhostRank sr ei < 0
           \<and> (newPres sr solution scalingFactor ei < 0
              \<or> newPhaseSat_candidate sr solution scalingFactor ei < 0
              \<or> newPhaseSat_candidate sr solution scalingFactor ei > 1)
      then 0 else localCheck)"
    unfolding cells_check by auto
  finally show ?case .
qed

lemma local_check:
  "CheckSystemSolution_local r scalingFactor =
     (if \<exists>sr\<in>set (rank_subRegions r). \<exists>ei<subRegion_size sr. elemGhostRank sr ei < 0
           \<and> (newPres sr (rank_solution r) scalingFactor ei < 0
              \<or> newPhaseSat_candidate sr (rank_solution r) scalingFactor ei < 0
              \<or> newPhaseSat_candidate sr (rank_solution r) scalingFactor ei > 1)
      then 0 else 1)"
  unfolding CheckSystemSolution_local_def subRegions_check ..

lemma min_over_ranks:
  "0 \<le> x \<Longrightarrow> \<forall>y\<in>set xs. 0 \<le> y \<Longrightarrow> (fold min xs x = (0::int)) = (x = 0 \<or> 0 \<in> set xs)"
proof (induction xs arbitrary: x)
  case Nil
  show ?case by simp
next
  case (Cons y ys)
  then have "(fold min ys (min y x) = 0) = (min y x = 0 \<or> 0 \<in> set ys)"
    by (intro Cons.IH) simp_all
  moreover have "(min y x = 0) = (y = 0 \<or> x = 0)"
    using Cons.prems by (cases "y \<le> x") auto
  ultimately show ?case by auto
qed




text \<open>
  C9: the bounds are checked with strict inequalities. A cell whose updated pressure is exactly
  \<open>0\<close> is judged by its saturation alone, and a cell whose updated saturation is exactly \<open>0\<close> or
  exactly \<open>1\<close> is judged by its pressure alone. A candidate is accepted when every cell that is not
  a ghost has an updated pressure of at least \<open>0\<close> and an updated saturation in the closed
  interval from \<open>0\<close> to \<open>1\<close>.
\<close>

theorem C9_boundary_values_accepted:
  "(elemGhostRank sr ei < 0 \<and> newPres sr solution scalingFactor ei = 0
      \<longrightarrow> CheckSystemSolution_cell sr solution scalingFactor ei localCheck
            = (if newPhaseSat_candidate sr solution scalingFactor ei < 0
                  \<or> newPhaseSat_candidate sr solution scalingFactor ei > 1
               then 0 else localCheck))
   \<and> (elemGhostRank sr ei < 0
        \<and> (newPhaseSat_candidate sr solution scalingFactor ei = 0
           \<or> newPhaseSat_candidate sr solution scalingFactor ei = 1)
      \<longrightarrow> CheckSystemSolution_cell sr solution scalingFactor ei localCheck
            = (if newPres sr solution scalingFactor ei < 0 then 0 else localCheck))
   \<and> ((\<forall>r\<in>set (self # others). \<forall>sr\<in>set (rank_subRegions r). \<forall>ei<subRegion_size sr.
          elemGhostRank sr ei < 0
          \<longrightarrow> 0 \<le> newPres sr (rank_solution r) scalingFactor ei
              \<and> 0 \<le> newPhaseSat_candidate sr (rank_solution r) scalingFactor ei
              \<and> newPhaseSat_candidate sr (rank_solution r) scalingFactor ei \<le> 1)
      \<longrightarrow> CheckSystemSolution self others scalingFactor = True)"
proof (intro conjI impI)
  assume "elemGhostRank sr ei < 0 \<and> newPres sr solution scalingFactor ei = 0"
  then show "CheckSystemSolution_cell sr solution scalingFactor ei localCheck
            = (if newPhaseSat_candidate sr solution scalingFactor ei < 0
                  \<or> newPhaseSat_candidate sr solution scalingFactor ei > 1
               then 0 else localCheck)"
    by (simp add: cell_check)
next
  assume "elemGhostRank sr ei < 0
        \<and> (newPhaseSat_candidate sr solution scalingFactor ei = 0
           \<or> newPhaseSat_candidate sr solution scalingFactor ei = 1)"
  then show "CheckSystemSolution_cell sr solution scalingFactor ei localCheck
            = (if newPres sr solution scalingFactor ei < 0 then 0 else localCheck)"
    by (auto simp add: cell_check)
next
  assume a: "\<forall>r\<in>set (self # others). \<forall>sr\<in>set (rank_subRegions r). \<forall>ei<subRegion_size sr.
          elemGhostRank sr ei < 0
          \<longrightarrow> 0 \<le> newPres sr (rank_solution r) scalingFactor ei
              \<and> 0 \<le> newPhaseSat_candidate sr (rank_solution r) scalingFactor ei
              \<and> newPhaseSat_candidate sr (rank_solution r) scalingFactor ei \<le> 1"
  have l: "CheckSystemSolution_local r scalingFactor = 1" if "r \<in> set (self # others)" for r
    unfolding local_check using a that by fastforce
  have "(MpiWrapper_Min (CheckSystemSolution_local self scalingFactor)
           (map (\<lambda>r. CheckSystemSolution_local r scalingFactor) others) = 0)
        = (CheckSystemSolution_local self scalingFactor = 0
           \<or> 0 \<in> set (map (\<lambda>r. CheckSystemSolution_local r scalingFactor) others))"
    unfolding MpiWrapper_Min_def by (rule min_over_ranks) (auto simp add: local_check)
  also have "\<dots> = False" using l by auto
  finally show "CheckSystemSolution self others scalingFactor = True"
    by (simp add: CheckSystemSolution_def Let_def)
qed

lemma example_cells:
  "(\<forall>ei<subRegion_size (example_subRegion p s). P ei) = (P 0 \<and> P 1 \<and> P 2)"
  by (auto simp add: example_subRegion_def numeral_3_eq_3 less_Suc_eq numeral_2_eq_2)

text \<open>
  A cell with pressure \<open>0\<close> and saturation \<open>3/2\<close> fails on the saturation; a cell with saturation
  \<open>0\<close> and pressure \<open>- 1\<close> fails on the pressure; the cells with pressure \<open>0\<close> and saturation
  \<open>0\<close>, and with pressure \<open>1\<close> and saturation \<open>1\<close>, pass. Two ranks whose cells sit on the bounds
  are accepted.
\<close>

theorem C9_boundary_values_accepted_witness:
  "CheckSystemSolution_cell (example_subRegion 0 (3 / 2)) (rank_solution (example_rank 0 (3 / 2))) 1 0 1 = 0
   \<and> CheckSystemSolution_cell (example_subRegion (- 1) 0) (rank_solution (example_rank (- 1) 0)) 1 0 1 = 0
   \<and> CheckSystemSolution_cell (example_subRegion 0 0) (rank_solution (example_rank 0 0)) 1 0 1 = 1
   \<and> CheckSystemSolution_cell (example_subRegion 2 1) (rank_solution (example_rank 2 1)) 1 1 1 = 1
   \<and> CheckSystemSolution (example_rank 0 0) [example_rank 0 1] 1 = True"
proof -
  have cells: "CheckSystemSolution_cell (example_subRegion 0 (3 / 2)) (rank_solution (example_rank 0 (3 / 2))) 1 0 1 = 0
   \<and> CheckSystemSolution_cell (example_subRegion (- 1) 0) (rank_solution (example_rank (- 1) 0)) 1 0 1 = 0
   \<and> CheckSystemSolution_cell (example_subRegion 0 0) (rank_solution (example_rank 0 0)) 1 0 1 = 1
   \<and> CheckSystemSolution_cell (example_subRegion 2 1) (rank_solution (example_rank 2 1)) 1 1 1 = 1"
    using C9_boundary_values_accepted [of "example_subRegion 0 (3 / 2)" 0 "rank_solution (example_rank 0 (3 / 2))" 1 1]
      C9_boundary_values_accepted [of "example_subRegion (- 1) 0" 0 "rank_solution (example_rank (- 1) 0)" 1 1]
      C9_boundary_values_accepted [of "example_subRegion 0 0" 0 "rank_solution (example_rank 0 0)" 1 1]
      C9_boundary_values_accepted [of "example_subRegion 2 1" 1 "rank_solution (example_rank 2 1)" 1 1]
    by (simp add: example_rank_def example_subRegion_def newPres_def newPhaseSat_candidate_def
        ColOffset_DPRES_def ColOffset_DSAT_def Let_def)
  have inside: "\<forall>r\<in>set (example_rank 0 0 # [example_rank 0 1]). \<forall>sr\<in>set (rank_subRegions r).
        \<forall>ei<subRegion_size sr. elemGhostRank sr ei < 0
          \<longrightarrow> 0 \<le> newPres sr (rank_solution r) 1 ei
              \<and> 0 \<le> newPhaseSat_candidate sr (rank_solution r) 1 ei
              \<and> newPhaseSat_candidate sr (rank_solution r) 1 ei \<le> 1"
    by (simp add: example_rank_def example_cells)
       (simp add: example_subRegion_def newPres_def newPhaseSat_candidate_def
          ColOffset_DPRES_def ColOffset_DSAT_def Let_def)
  have "CheckSystemSolution (example_rank 0 0) [example_rank 0 1] 1 = True"
    using C9_boundary_values_accepted [where self = "example_rank 0 0"
        and others = "[example_rank 0 1]" and scalingFactor = 1,
        THEN conjunct2, THEN conjunct2] inside
    by (rule mp)
  with cells show ?thesis by blast
qed

section \<open>Properties of the initialisation\<close>

text \<open>
  C6, as the specification states it: with the fluid phases water and oil and the relative
  permeability phases oil and water, the initialisation maps water to row offset \<open>0\<close> and oil to
  row offset \<open>1\<close>. It does not: the names at index \<open>0\<close> differ, the check of the phase names
  fails, and no map is built.
\<close>

theorem C6_swapped_names_counterexample:
  "\<not> (\<exists>solver'. InitializePreSubGroups example_solver example_fluid (Some example_relPerm_swapped)
                    = Inr solver'
         \<and> m_phaseToRow solver' ! 0 = RowOffset_WETTING
         \<and> m_phaseToRow solver' ! 1 = RowOffset_NONWETTING)"
  by (simp add: InitializePreSubGroups_def Let_def upt_2 example_fluid_def
      example_relPerm_swapped_def NUM_PHASES_def)

lemma find_mismatch:
  assumes "ip < NUM_PHASES" "fluid_phaseName fluid ip \<noteq> relPerm_phaseName relPerm ip"
  shows "\<exists>jp. find (\<lambda>ip. fluid_phaseName fluid ip \<noteq> relPerm_phaseName relPerm ip) [0..<NUM_PHASES]
               = Some jp"
proof (cases "find (\<lambda>ip. fluid_phaseName fluid ip \<noteq> relPerm_phaseName relPerm ip) [0..<NUM_PHASES]")
  case None
  with assms show ?thesis by (auto simp add: find_None_iff)
next
  case (Some jp)
  then show ?thesis by simp
qed

lemma resize_two_updates: "(array1d_resize 2 xs)[0 := a, Suc 0 := b] = [a, b]"
proof -
  have "length (array1d_resize 2 xs) = Suc (Suc 0)"
    by (simp add: array1d_resize_def)
  then obtain x y where "array1d_resize 2 xs = [x, y]"
    by (auto simp add: length_Suc_conv)
  then show ?thesis by simp
qed

text \<open>
  C6, amended. With the fluid phases water and oil and the relative permeability phases water
  and oil, in this order in both models, the initialisation succeeds and maps the wetting phase
  (water, phase \<open>0\<close>) to row offset \<open>0\<close> and the non-wetting phase (oil, phase \<open>1\<close>) to row offset
  \<open>1\<close>. Whenever the phase name at some index below \<^verbatim>\<open>NUM_PHASES\<close> differs between the two
  models, the initialisation ends in a configuration error; when both models have two phases,
  the error is the mismatch of the names at a differing index.
\<close>

theorem C6_phase_rows:
  "(fluid_numFluidPhases fluid = 2 \<and> relPerm_numFluidPhases relPerm = 2
      \<and> fluid_phaseName fluid 0 = ''water'' \<and> fluid_phaseName fluid 1 = ''oil''
      \<and> relPerm_phaseName relPerm 0 = ''water'' \<and> relPerm_phaseName relPerm 1 = ''oil''
    \<longrightarrow> (\<exists>solver'. InitializePreSubGroups solver fluid (Some relPerm) = Inr solver'
           \<and> m_phaseToRow solver' = [RowOffset_WETTING, RowOffset_NONWETTING]
           \<and> m_phaseToRow solver' ! 0 = 0 \<and> m_phaseToRow solver' ! 1 = 1))
   \<and> ((\<exists>ip<NUM_PHASES. fluid_phaseName fluid ip \<noteq> relPerm_phaseName relPerm ip)
    \<longrightarrow> (\<exists>e. InitializePreSubGroups solver fluid (Some relPerm) = Inl e))
   \<and> (fluid_numFluidPhases fluid = 2 \<and> relPerm_numFluidPhases relPerm = 2
      \<and> (\<exists>ip<NUM_PHASES. fluid_phaseName fluid ip \<noteq> relPerm_phaseName relPerm ip)
    \<longrightarrow> (\<exists>ip<NUM_PHASES. fluid_phaseName fluid ip \<noteq> relPerm_phaseName relPerm ip
           \<and> InitializePreSubGroups solver fluid (Some relPerm)
               = Inl (PhaseNameMismatch (fluid_phaseName fluid ip) (m_fluidName solver)
                        (relPerm_phaseName relPerm ip) (m_relPermName solver))))"
proof -
  have rows: "\<exists>solver'. InitializePreSubGroups solver fluid (Some relPerm) = Inr solver'
           \<and> m_phaseToRow solver' = [RowOffset_WETTING, RowOffset_NONWETTING]
           \<and> m_phaseToRow solver' ! 0 = 0 \<and> m_phaseToRow solver' ! 1 = 1"
    if "fluid_numFluidPhases fluid = 2 \<and> relPerm_numFluidPhases relPerm = 2
      \<and> fluid_phaseName fluid 0 = ''water'' \<and> fluid_phaseName fluid 1 = ''oil''
      \<and> relPerm_phaseName relPerm 0 = ''water'' \<and> relPerm_phaseName relPerm 1 = ''oil''"
    using that
    by (simp add: InitializePreSubGroups_def Let_def upt_2 NUM_PHASES_def
        resize_two_updates RowOffset_WETTING_def RowOffset_NONWETTING_def)
  have err: "\<exists>e. InitializePreSubGroups solver fluid (Some relPerm) = Inl e"
    if "\<exists>ip<NUM_PHASES. fluid_phaseName fluid ip \<noteq> relPerm_phaseName relPerm ip"
  proof -
    from that obtain jp where "find (\<lambda>ip. fluid_phaseName fluid ip \<noteq> relPerm_phaseName relPerm ip)
        [0..<NUM_PHASES] = Some jp"
      using find_mismatch by blast
    then show ?thesis
      by (simp add: InitializePreSubGroups_def Let_def)
  qed
  have mismatch: "\<exists>ip<NUM_PHASES. fluid_phaseName fluid ip \<noteq> relPerm_phaseName relPerm ip
           \<and> InitializePreSubGroups solver fluid (Some relPerm)
               = Inl (PhaseNameMismatch (fluid_phaseName fluid ip) (m_fluidName solver)
                        (relPerm_phaseName relPerm ip) (m_relPermName solver))"
    if "fluid_numFluidPhases fluid = 2 \<and> relPerm_numFluidPhases relPerm = 2
      \<and> (\<exists>ip<NUM_PHASES. fluid_phaseName fluid ip \<noteq> relPerm_phaseName relPerm ip)"
  proof -
    from that have n: "fluid_numFluidPhases fluid = 2" "relPerm_numFluidPhases relPerm = 2"
      by simp_all
    from that obtain jp where f: "find (\<lambda>ip. fluid_phaseName fluid ip \<noteq> relPerm_phaseName relPerm ip)
        [0..<NUM_PHASES] = Some jp"
      using find_mismatch by blast
    then have "jp < NUM_PHASES \<and> fluid_phaseName fluid jp \<noteq> relPerm_phaseName relPerm jp"
      by (auto simp add: find_Some_iff)
    moreover have "InitializePreSubGroups solver fluid (Some relPerm)
               = Inl (PhaseNameMismatch (fluid_phaseName fluid jp) (m_fluidName solver)
                        (relPerm_phaseName relPerm jp) (m_relPermName solver))"
      using n f by (simp add: InitializePreSubGroups_def Let_def NUM_PHASES_def)
    ultimately show ?thesis by blast
  qed
  from rows err mismatch show ?thesis by blast
qed

text \<open>
  The scenario: with the same order of the phases the map is \<open>[0, 1]\<close>; with the relative
  permeability phases oil and water the initialisation reports that water does not match oil.
\<close>

theorem C6_phase_rows_witness:
  "InitializePreSubGroups example_solver example_fluid (Some example_relPerm)
     = Inr (example_solver\<lparr>m_relPermIndex := 4, m_phaseToRow := [0, 1]\<rparr>)
   \<and> InitializePreSubGroups example_solver example_fluid (Some example_relPerm_swapped)
     = Inl (PhaseNameMismatch ''water'' ''fluid'' ''oil'' ''relperm'')"
proof -
  have mismatch: "\<exists>ip<NUM_PHASES. fluid_phaseName example_fluid ip
                     \<noteq> relPerm_phaseName example_relPerm_swapped ip"
    by (rule exI [of _ 0]) (simp add: NUM_PHASES_def example_fluid_def example_relPerm_swapped_def)
  have "\<exists>e. InitializePreSubGroups example_solver example_fluid (Some example_relPerm_swapped) = Inl e"
    using C6_phase_rows [of example_fluid example_relPerm_swapped example_solver,
        THEN conjunct2, THEN conjunct1] mismatch
    by (rule mp)
  moreover have "\<exists>solver'. InitializePreSubGroups example_solver example_fluid (Some example_relPerm)
                   = Inr solver' \<and> m_phaseToRow solver' = [RowOffset_WETTING, RowOffset_NONWETTING]
           \<and> m_phaseToRow solver' ! 0 = 0 \<and> m_phaseToRow solver' ! 1 = 1"
    using C6_phase_rows [of example_fluid example_relPerm example_solver, THEN conjunct1]
    by (simp add: example_fluid_def example_relPerm_def)
  ultimately show ?thesis
    by (simp add: InitializePreSubGroups_def Let_def upt_2 NUM_PHASES_def
        array1d_resize_def RowOffset_WETTING_def RowOffset_NONWETTING_def example_fluid_def
        example_relPerm_def example_relPerm_swapped_def example_solver_def)
qed

section \<open>Properties of the state update\<close>

lemma fold_upt_Suc: "fold f [0..<Suc n] s = f n (fold f [0..<n] s)"
  by simp

lemma fluid_loop:
  "fold (\<lambda>a g. PointUpdate laws (pressure g a + deltaPressure g a) T c a 0 g) [0..<m] g =
     g\<lparr>phaseDensity := (\<lambda>a. if a < m
          then (phaseDensity g a)(0 := point_density (fluid_evaluate laws (pressure g a + deltaPressure g a) T c))
          else phaseDensity g a),
       dPhaseDensity_dPressure := (\<lambda>a. if a < m
          then (dPhaseDensity_dPressure g a)(0 := point_dDensity_dPressure (fluid_evaluate laws (pressure g a + deltaPressure g a) T c))
          else dPhaseDensity_dPressure g a),
       phaseViscosity := (\<lambda>a. if a < m
          then (phaseViscosity g a)(0 := point_viscosity (fluid_evaluate laws (pressure g a + deltaPressure g a) T c))
          else phaseViscosity g a),
       dPhaseViscosity_dPressure := (\<lambda>a. if a < m
          then (dPhaseViscosity_dPressure g a)(0 := point_dViscosity_dPressure (fluid_evaluate laws (pressure g a + deltaPressure g a) T c))
          else dPhaseViscosity_dPressure g a)\<rparr>"
proof (induction m)
  case 0
  show ?case by simp
next
  case (Suc m)
  let ?step = "\<lambda>a g. PointUpdate laws (pressure g a + deltaPressure g a) T c a 0 g"
  have "fold ?step [0..<Suc m] g = ?step m (fold ?step [0..<m] g)" by (rule fold_upt_Suc)
  also note Suc.IH
  finally show ?case
    by (simp add: PointUpdate_def Let_def fun_eq_iff less_Suc_eq)
qed

lemma solid_loop:
  "fold (\<lambda>a g. StateUpdatePointPressure laws (pressure g a + deltaPressure g a) a 0 g) [0..<m] g =
     g\<lparr>poreVolumeMultiplier := (\<lambda>a. if a < m
          then (poreVolumeMultiplier g a)(0 := fst (solid_evaluate laws (pressure g a + deltaPressure g a)))
          else poreVolumeMultiplier g a),
       dPVMult_dPres := (\<lambda>a. if a < m
          then (dPVMult_dPres g a)(0 := snd (solid_evaluate laws (pressure g a + deltaPressure g a)))
          else dPVMult_dPres g a)\<rparr>"
proof (induction m)
  case 0
  show ?case by simp
next
  case (Suc m)
  let ?step = "\<lambda>a g. StateUpdatePointPressure laws (pressure g a + deltaPressure g a) a 0 g"
  have "fold ?step [0..<Suc m] g = ?step m (fold ?step [0..<m] g)" by (rule fold_upt_Suc)
  also note Suc.IH
  finally show ?case
    by (simp add: StateUpdatePointPressure_def Let_def fun_eq_iff less_Suc_eq)
qed

lemma newSat_inner:
  "fold (\<lambda>ip g. g\<lparr>newPhaseSat := (newPhaseSat g)(a := (newPhaseSat g a)(ip := phaseSat g a ip + deltaPhaseSat g a ip))\<rparr>)
     [0..<k] g =
   g\<lparr>newPhaseSat := (newPhaseSat g)(a := (\<lambda>ip. if ip < k then phaseSat g a ip + deltaPhaseSat g a ip
                                              else newPhaseSat g a ip))\<rparr>"
proof (induction k)
  case 0
  show ?case by simp
next
  case (Suc k)
  let ?step = "\<lambda>ip g. g\<lparr>newPhaseSat := (newPhaseSat g)(a := (newPhaseSat g a)(ip := phaseSat g a ip + deltaPhaseSat g a ip))\<rparr>"
  have "fold ?step [0..<Suc k] g = ?step k (fold ?step [0..<k] g)" by (rule fold_upt_Suc)
  also note Suc.IH
  finally show ?case
    by (simp add: fun_eq_iff less_Suc_eq)
qed

lemma newSat_loop:
  "fold (\<lambda>a. fold (\<lambda>ip g. g\<lparr>newPhaseSat := (newPhaseSat g)(a := (newPhaseSat g a)(ip := phaseSat g a ip + deltaPhaseSat g a ip))\<rparr>) [0..<k])
     [0..<m] g =
   g\<lparr>newPhaseSat := (\<lambda>a. if a < m
        then (\<lambda>ip. if ip < k then phaseSat g a ip + deltaPhaseSat g a ip else newPhaseSat g a ip)
        else newPhaseSat g a)\<rparr>"
proof (induction m)
  case 0
  show ?case by simp
next
  case (Suc m)
  let ?step = "\<lambda>a. fold (\<lambda>ip g. g\<lparr>newPhaseSat := (newPhaseSat g)(a := (newPhaseSat g a)(ip := phaseSat g a ip + deltaPhaseSat g a ip))\<rparr>) [0..<k]"
  have "fold ?step [0..<Suc m] g = ?step m (fold ?step [0..<m] g)" by (rule fold_upt_Suc)
  also note Suc.IH
  finally have "fold ?step [0..<Suc m] g
      = ?step m (g\<lparr>newPhaseSat := (\<lambda>a. if a < m
        then (\<lambda>ip. if ip < k then phaseSat g a ip + deltaPhaseSat g a ip else newPhaseSat g a ip)
        else newPhaseSat g a)\<rparr>)" .
  also have "\<dots> = g\<lparr>newPhaseSat := (\<lambda>a. if a < Suc m
        then (\<lambda>ip. if ip < k then phaseSat g a ip + deltaPhaseSat g a ip else newPhaseSat g a ip)
        else newPhaseSat g a)\<rparr>"
    unfolding newSat_inner by (simp add: fun_eq_iff less_Suc_eq)
  finally show ?case .
qed


lemma relPerm_loop:
  "fold (\<lambda>k g. let r = relPerm_evaluate laws (F k)
                in g\<lparr>phaseRelPerm := (phaseRelPerm g)(k := (phaseRelPerm g k)(0 := fst r)),
                      dPhaseRelPerm_dPhaseVolFraction :=
                        (dPhaseRelPerm_dPhaseVolFraction g)
                          (k := (dPhaseRelPerm_dPhaseVolFraction g k)(0 := snd r))\<rparr>) [0..<m] g =
     g\<lparr>phaseRelPerm := (\<lambda>k. if k < m
          then (phaseRelPerm g k)(0 := fst (relPerm_evaluate laws (F k)))
          else phaseRelPerm g k),
       dPhaseRelPerm_dPhaseVolFraction := (\<lambda>k. if k < m
          then (dPhaseRelPerm_dPhaseVolFraction g k)(0 := snd (relPerm_evaluate laws (F k)))
          else dPhaseRelPerm_dPhaseVolFraction g k)\<rparr>"
proof (induction m)
  case 0
  show ?case by simp
next
  case (Suc m)
  let ?step = "\<lambda>k g. let r = relPerm_evaluate laws (F k)
                in g\<lparr>phaseRelPerm := (phaseRelPerm g)(k := (phaseRelPerm g k)(0 := fst r)),
                      dPhaseRelPerm_dPhaseVolFraction :=
                        (dPhaseRelPerm_dPhaseVolFraction g)
                          (k := (dPhaseRelPerm_dPhaseVolFraction g k)(0 := snd r))\<rparr>"
  have "fold ?step [0..<Suc m] g = ?step m (fold ?step [0..<m] g)" by (rule fold_upt_Suc)
  also note Suc.IH
  finally show ?case
    by (simp add: Let_def fun_eq_iff less_Suc_eq)
qed

lemma mobility_inner:
  "fold (PhaseMobilityKernel_Compute a) [0..<k] g =
     g\<lparr>phaseMobility := (phaseMobility g)(a := (\<lambda>ip. if ip < k then phaseMobility_value g a ip
                                                   else phaseMobility g a ip)),
       dPhaseMobility_dPressure := (dPhaseMobility_dPressure g)
          (a := (\<lambda>ip. if ip < k then dPhaseMobility_dPressure_value g a ip else dPhaseMobility_dPressure g a ip)),
       dPhaseMobility_dSaturation := (dPhaseMobility_dSaturation g)
          (a := (\<lambda>ip. if ip < k then dPhaseMobility_dSaturation_value g a ip else dPhaseMobility_dSaturation g a ip))\<rparr>"
proof (induction k)
  case 0
  show ?case by simp
next
  case (Suc k)
  have "fold (PhaseMobilityKernel_Compute a) [0..<Suc k] g
          = PhaseMobilityKernel_Compute a k (fold (PhaseMobilityKernel_Compute a) [0..<k] g)"
    by (rule fold_upt_Suc)
  also note Suc.IH
  finally show ?case
    by (simp add: PhaseMobilityKernel_Compute_def fun_eq_iff less_Suc_eq phaseMobility_value_def
        dPhaseMobility_dPressure_value_def dPhaseMobility_dSaturation_value_def)
qed

lemma mobility_loop:
  "fold (\<lambda>a. fold (PhaseMobilityKernel_Compute a) [0..<k]) [0..<m] g =
     g\<lparr>phaseMobility := (\<lambda>a. if a < m
          then (\<lambda>ip. if ip < k then phaseMobility_value g a ip else phaseMobility g a ip)
          else phaseMobility g a),
       dPhaseMobility_dPressure := (\<lambda>a. if a < m
          then (\<lambda>ip. if ip < k then dPhaseMobility_dPressure_value g a ip else dPhaseMobility_dPressure g a ip)
          else dPhaseMobility_dPressure g a),
       dPhaseMobility_dSaturation := (\<lambda>a. if a < m
          then (\<lambda>ip. if ip < k then dPhaseMobility_dSaturation_value g a ip else dPhaseMobility_dSaturation g a ip)
          else dPhaseMobility_dSaturation g a)\<rparr>"
    (is "_ = ?closed m")
proof (induction m)
  case 0
  show ?case by simp
next
  case (Suc m)
  let ?step = "\<lambda>a. fold (PhaseMobilityKernel_Compute a) [0..<k]"
  have "fold ?step [0..<Suc m] g = ?step m (fold ?step [0..<m] g)" by (rule fold_upt_Suc)
  also note Suc.IH
  finally have "fold ?step [0..<Suc m] g = ?step m (?closed m)" .
  also have "\<dots> = ?closed (Suc m)"
    unfolding mobility_inner
    by (simp add: fun_eq_iff less_Suc_eq phaseMobility_value_def dPhaseMobility_dPressure_value_def
        dPhaseMobility_dSaturation_value_def)
  finally show ?case .
qed


lemma UpdateFluidModel_closed:
  "UpdateFluidModel laws g =
     g\<lparr>phaseDensity := (\<lambda>a. if a < subRegion_size g
          then (phaseDensity g a)(0 := point_density (fluid_evaluate laws (pressure g a + deltaPressure g a) 293.15 (\<lambda>ic. 0)))
          else phaseDensity g a),
       dPhaseDensity_dPressure := (\<lambda>a. if a < subRegion_size g
          then (dPhaseDensity_dPressure g a)(0 := point_dDensity_dPressure (fluid_evaluate laws (pressure g a + deltaPressure g a) 293.15 (\<lambda>ic. 0)))
          else dPhaseDensity_dPressure g a),
       phaseViscosity := (\<lambda>a. if a < subRegion_size g
          then (phaseViscosity g a)(0 := point_viscosity (fluid_evaluate laws (pressure g a + deltaPressure g a) 293.15 (\<lambda>ic. 0)))
          else phaseViscosity g a),
       dPhaseViscosity_dPressure := (\<lambda>a. if a < subRegion_size g
          then (dPhaseViscosity_dPressure g a)(0 := point_dViscosity_dPressure (fluid_evaluate laws (pressure g a + deltaPressure g a) 293.15 (\<lambda>ic. 0)))
          else dPhaseViscosity_dPressure g a)\<rparr>"
  unfolding UpdateFluidModel_def Let_def fluid_loop ..

lemma UpdateSolidModel_closed:
  "UpdateSolidModel laws g =
     g\<lparr>poreVolumeMultiplier := (\<lambda>a. if a < subRegion_size g
          then (poreVolumeMultiplier g a)(0 := fst (solid_evaluate laws (pressure g a + deltaPressure g a)))
          else poreVolumeMultiplier g a),
       dPVMult_dPres := (\<lambda>a. if a < subRegion_size g
          then (dPVMult_dPres g a)(0 := snd (solid_evaluate laws (pressure g a + deltaPressure g a)))
          else dPVMult_dPres g a)\<rparr>"
  unfolding UpdateSolidModel_def solid_loop ..

lemma UpdateRelPermModel_closed:
  "UpdateRelPermModel laws g =
     g\<lparr>newPhaseSat := (\<lambda>a. if a < subRegion_size g
          then (\<lambda>ip. if ip < NUM_PHASES then phaseSat g a ip + deltaPhaseSat g a ip
                     else newPhaseSat g a ip)
          else newPhaseSat g a),
       phaseRelPerm := (\<lambda>k. if k < subRegion_size g
          then (phaseRelPerm g k)(0 := fst (relPerm_evaluate laws ((\<lambda>a. if a < subRegion_size g
          then (\<lambda>ip. if ip < NUM_PHASES then phaseSat g a ip + deltaPhaseSat g a ip
                     else newPhaseSat g a ip)
          else newPhaseSat g a) k)))
          else phaseRelPerm g k),
       dPhaseRelPerm_dPhaseVolFraction := (\<lambda>k. if k < subRegion_size g
          then (dPhaseRelPerm_dPhaseVolFraction g k)(0 := snd (relPerm_evaluate laws ((\<lambda>a. if a < subRegion_size g
          then (\<lambda>ip. if ip < NUM_PHASES then phaseSat g a ip + deltaPhaseSat g a ip
                     else newPhaseSat g a ip)
          else newPhaseSat g a) k)))
          else dPhaseRelPerm_dPhaseVolFraction g k)\<rparr>"
proof -
  define g1 where "g1 = g\<lparr>newPhaseSat := (\<lambda>a. if a < subRegion_size g
          then (\<lambda>ip. if ip < NUM_PHASES then phaseSat g a ip + deltaPhaseSat g a ip
                     else newPhaseSat g a ip)
          else newPhaseSat g a)\<rparr>"
  have "UpdateRelPermModel laws g = BatchUpdate laws (newPhaseSat g1) g1"
    unfolding UpdateRelPermModel_def Let_def newSat_loop g1_def ..
  also have "\<dots> = g1\<lparr>phaseRelPerm := (\<lambda>k. if k < subRegion_size g1
          then (phaseRelPerm g1 k)(0 := fst (relPerm_evaluate laws (newPhaseSat g1 k)))
          else phaseRelPerm g1 k),
       dPhaseRelPerm_dPhaseVolFraction := (\<lambda>k. if k < subRegion_size g1
          then (dPhaseRelPerm_dPhaseVolFraction g1 k)(0 := snd (relPerm_evaluate laws (newPhaseSat g1 k)))
          else dPhaseRelPerm_dPhaseVolFraction g1 k)\<rparr>"
    unfolding BatchUpdate_def relPerm_loop ..
  also have "\<dots> = g\<lparr>newPhaseSat := (\<lambda>a. if a < subRegion_size g
          then (\<lambda>ip. if ip < NUM_PHASES then phaseSat g a ip + deltaPhaseSat g a ip
                     else newPhaseSat g a ip)
          else newPhaseSat g a),
       phaseRelPerm := (\<lambda>k. if k < subRegion_size g
          then (phaseRelPerm g k)(0 := fst (relPerm_evaluate laws ((\<lambda>a. if a < subRegion_size g
          then (\<lambda>ip. if ip < NUM_PHASES then phaseSat g a ip + deltaPhaseSat g a ip
                     else newPhaseSat g a ip)
          else newPhaseSat g a) k)))
          else phaseRelPerm g k),
       dPhaseRelPerm_dPhaseVolFraction := (\<lambda>k. if k < subRegion_size g
          then (dPhaseRelPerm_dPhaseVolFraction g k)(0 := snd (relPerm_evaluate laws ((\<lambda>a. if a < subRegion_size g
          then (\<lambda>ip. if ip < NUM_PHASES then phaseSat g a ip + deltaPhaseSat g a ip
                     else newPhaseSat g a ip)
          else newPhaseSat g a) k)))
          else dPhaseRelPerm_dPhaseVolFraction g k)\<rparr>"
  proof -
    have f: "subRegion_size g1 = subRegion_size g" "phaseRelPerm g1 = phaseRelPerm g"
        "dPhaseRelPerm_dPhaseVolFraction g1 = dPhaseRelPerm_dPhaseVolFraction g"
        "newPhaseSat g1 = (\<lambda>a. if a < subRegion_size g
          then (\<lambda>ip. if ip < NUM_PHASES then phaseSat g a ip + deltaPhaseSat g a ip
                     else newPhaseSat g a ip)
          else newPhaseSat g a)"
      by (simp_all add: g1_def)
    show ?thesis unfolding f by (simp add: g1_def)
  qed
  finally show ?thesis .
qed

lemma UpdatePhaseMobility_closed:
  "UpdatePhaseMobility g =
     g\<lparr>phaseMobility := (\<lambda>a. if a < subRegion_size g
          then (\<lambda>ip. if ip < NUM_PHASES then phaseMobility_value g a ip else phaseMobility g a ip)
          else phaseMobility g a),
       dPhaseMobility_dPressure := (\<lambda>a. if a < subRegion_size g
          then (\<lambda>ip. if ip < NUM_PHASES then dPhaseMobility_dPressure_value g a ip else dPhaseMobility_dPressure g a ip)
          else dPhaseMobility_dPressure g a),
       dPhaseMobility_dSaturation := (\<lambda>a. if a < subRegion_size g
          then (\<lambda>ip. if ip < NUM_PHASES then dPhaseMobility_dSaturation_value g a ip else dPhaseMobility_dSaturation g a ip)
          else dPhaseMobility_dSaturation g a)\<rparr>"
  unfolding UpdatePhaseMobility_def PhaseMobilityKernel_Launch_def mobility_loop ..

lemma UpdateState_primary:
  "subRegion_size (UpdateState laws g) = subRegion_size g"
  "pressure (UpdateState laws g) = pressure g"
  "deltaPressure (UpdateState laws g) = deltaPressure g"
  "phaseSat (UpdateState laws g) = phaseSat g"
  "deltaPhaseSat (UpdateState laws g) = deltaPhaseSat g"
  by (simp_all add: UpdateState_def UpdateFluidModel_closed UpdateSolidModel_closed
      UpdateRelPermModel_closed UpdatePhaseMobility_closed)


lemma UpdateState_fluid:
  "phaseDensity (UpdateState laws g) = phaseDensity (UpdateFluidModel laws g)"
  "dPhaseDensity_dPressure (UpdateState laws g) = dPhaseDensity_dPressure (UpdateFluidModel laws g)"
  "phaseViscosity (UpdateState laws g) = phaseViscosity (UpdateFluidModel laws g)"
  "dPhaseViscosity_dPressure (UpdateState laws g) = dPhaseViscosity_dPressure (UpdateFluidModel laws g)"
  by (simp_all add: UpdateState_def UpdateSolidModel_closed
      UpdateRelPermModel_closed UpdatePhaseMobility_closed)

lemma UpdateState_solid:
  "poreVolumeMultiplier (UpdateState laws g) = poreVolumeMultiplier (UpdateSolidModel laws g)"
  "dPVMult_dPres (UpdateState laws g) = dPVMult_dPres (UpdateSolidModel laws g)"
  by (simp_all add: UpdateState_def UpdateFluidModel_closed UpdateSolidModel_closed
      UpdateRelPermModel_closed UpdatePhaseMobility_closed cong: if_cong)

lemma UpdateState_relPerm:
  "newPhaseSat (UpdateState laws g) = newPhaseSat (UpdateRelPermModel laws g)"
  "phaseRelPerm (UpdateState laws g) = phaseRelPerm (UpdateRelPermModel laws g)"
  "dPhaseRelPerm_dPhaseVolFraction (UpdateState laws g)
     = dPhaseRelPerm_dPhaseVolFraction (UpdateRelPermModel laws g)"
  by (simp_all add: UpdateState_def UpdateFluidModel_closed UpdateSolidModel_closed
      UpdateRelPermModel_closed UpdatePhaseMobility_closed cong: if_cong)

lemma fluid_fixed: "UpdateFluidModel laws (UpdateState laws g) = UpdateState laws g"
proof -
  have "UpdateFluidModel laws (UpdateState laws g)
          = (UpdateState laws g)\<lparr>phaseDensity := phaseDensity (UpdateState laws g),
               dPhaseDensity_dPressure := dPhaseDensity_dPressure (UpdateState laws g),
               phaseViscosity := phaseViscosity (UpdateState laws g),
               dPhaseViscosity_dPressure := dPhaseViscosity_dPressure (UpdateState laws g)\<rparr>"
    unfolding UpdateFluidModel_closed [of laws "UpdateState laws g"] UpdateState_primary UpdateState_fluid
    by (simp add: UpdateFluidModel_closed fun_eq_iff cong: if_cong)
  then show ?thesis by simp
qed


lemma solid_fixed: "UpdateSolidModel laws (UpdateState laws g) = UpdateState laws g"
proof -
  have "UpdateSolidModel laws (UpdateState laws g)
          = (UpdateState laws g)\<lparr>poreVolumeMultiplier := poreVolumeMultiplier (UpdateState laws g),
               dPVMult_dPres := dPVMult_dPres (UpdateState laws g)\<rparr>"
    unfolding UpdateSolidModel_closed [of laws "UpdateState laws g"] UpdateState_primary UpdateState_solid
    by (simp add: UpdateSolidModel_closed fun_eq_iff cong: if_cong)
  then show ?thesis by simp
qed

lemma trialSat_fixed:
  "(\<lambda>a. if a < subRegion_size (UpdateState laws g)
          then (\<lambda>ip. if ip < NUM_PHASES then phaseSat (UpdateState laws g) a ip + deltaPhaseSat (UpdateState laws g) a ip
                     else newPhaseSat (UpdateState laws g) a ip)
          else newPhaseSat (UpdateState laws g) a) = (\<lambda>a. if a < subRegion_size g
          then (\<lambda>ip. if ip < NUM_PHASES then phaseSat g a ip + deltaPhaseSat g a ip
                     else newPhaseSat g a ip)
          else newPhaseSat g a)"
  unfolding UpdateState_primary UpdateState_relPerm
  by (simp add: UpdateRelPermModel_closed fun_eq_iff cong: if_cong)

lemma relPerm_fixed: "UpdateRelPermModel laws (UpdateState laws g) = UpdateState laws g"
proof -
  have "UpdateRelPermModel laws (UpdateState laws g)
          = (UpdateState laws g)\<lparr>newPhaseSat := newPhaseSat (UpdateState laws g),
               phaseRelPerm := phaseRelPerm (UpdateState laws g),
               dPhaseRelPerm_dPhaseVolFraction := dPhaseRelPerm_dPhaseVolFraction (UpdateState laws g)\<rparr>"
    unfolding UpdateRelPermModel_closed [of laws "UpdateState laws g"] trialSat_fixed
      UpdateState_primary UpdateState_relPerm
    by (simp add: UpdateRelPermModel_closed fun_eq_iff cong: if_cong)
  then show ?thesis by simp
qed

lemma mobility_values_fixed:
  "phaseMobility_value (UpdatePhaseMobility g) = phaseMobility_value g"
  "dPhaseMobility_dPressure_value (UpdatePhaseMobility g) = dPhaseMobility_dPressure_value g"
  "dPhaseMobility_dSaturation_value (UpdatePhaseMobility g) = dPhaseMobility_dSaturation_value g"
  by (simp_all add: fun_eq_iff phaseMobility_value_def dPhaseMobility_dPressure_value_def
      dPhaseMobility_dSaturation_value_def UpdatePhaseMobility_closed)

lemma mobility_idem: "UpdatePhaseMobility (UpdatePhaseMobility g) = UpdatePhaseMobility g"
proof -
  have "UpdatePhaseMobility (UpdatePhaseMobility g)
          = (UpdatePhaseMobility g)\<lparr>phaseMobility := phaseMobility (UpdatePhaseMobility g),
               dPhaseMobility_dPressure := dPhaseMobility_dPressure (UpdatePhaseMobility g),
               dPhaseMobility_dSaturation := dPhaseMobility_dSaturation (UpdatePhaseMobility g)\<rparr>"
    unfolding UpdatePhaseMobility_closed [of "UpdatePhaseMobility g"] mobility_values_fixed
    by (simp add: UpdatePhaseMobility_closed fun_eq_iff cong: if_cong)
  then show ?thesis by simp
qed

lemma mobility_fixed: "UpdatePhaseMobility (UpdateState laws g) = UpdateState laws g"
  unfolding UpdateState_def by (rule mobility_idem)

lemma UpdateState_idem: "UpdateState laws (UpdateState laws g) = UpdateState laws g"
proof -
  have "UpdateState laws (UpdateState laws g)
          = UpdatePhaseMobility (UpdateRelPermModel laws (UpdateSolidModel laws
              (UpdateFluidModel laws (UpdateState laws g))))"
    by (rule UpdateState_def)
  also have "\<dots> = UpdateState laws g"
    by (simp only: fluid_fixed solid_fixed relPerm_fixed mobility_fixed)
  finally show ?thesis .
qed


lemma UpdateState_mobility:
  "phaseMobility (UpdateState laws g) = (\<lambda>a. if a < subRegion_size g
      then (\<lambda>ip. if ip < NUM_PHASES then phaseMobility_value (UpdateState laws g) a ip
                 else phaseMobility g a ip)
      else phaseMobility g a)"
  "dPhaseMobility_dPressure (UpdateState laws g) = (\<lambda>a. if a < subRegion_size g
      then (\<lambda>ip. if ip < NUM_PHASES then dPhaseMobility_dPressure_value (UpdateState laws g) a ip
                 else dPhaseMobility_dPressure g a ip)
      else dPhaseMobility_dPressure g a)"
  "dPhaseMobility_dSaturation (UpdateState laws g) = (\<lambda>a. if a < subRegion_size g
      then (\<lambda>ip. if ip < NUM_PHASES then dPhaseMobility_dSaturation_value (UpdateState laws g) a ip
                 else dPhaseMobility_dSaturation g a ip)
      else dPhaseMobility_dSaturation g a)"
proof -
  let ?g3 = "UpdateRelPermModel laws (UpdateSolidModel laws (UpdateFluidModel laws g))"
  have f: "subRegion_size ?g3 = subRegion_size g" "phaseMobility ?g3 = phaseMobility g"
      "dPhaseMobility_dPressure ?g3 = dPhaseMobility_dPressure g"
      "dPhaseMobility_dSaturation ?g3 = dPhaseMobility_dSaturation g"
    by (simp_all add: UpdateFluidModel_closed UpdateSolidModel_closed UpdateRelPermModel_closed)
  have u: "UpdateState laws g = UpdatePhaseMobility ?g3" by (rule UpdateState_def)
  show "phaseMobility (UpdateState laws g) = (\<lambda>a. if a < subRegion_size g
      then (\<lambda>ip. if ip < NUM_PHASES then phaseMobility_value (UpdateState laws g) a ip
                 else phaseMobility g a ip)
      else phaseMobility g a)"
    unfolding u mobility_values_fixed by (simp add: UpdatePhaseMobility_closed f cong: if_cong)
  show "dPhaseMobility_dPressure (UpdateState laws g) = (\<lambda>a. if a < subRegion_size g
      then (\<lambda>ip. if ip < NUM_PHASES then dPhaseMobility_dPressure_value (UpdateState laws g) a ip
                 else dPhaseMobility_dPressure g a ip)
      else dPhaseMobility_dPressure g a)"
    unfolding u mobility_values_fixed by (simp add: UpdatePhaseMobility_closed f cong: if_cong)
  show "dPhaseMobility_dSaturation (UpdateState laws g) = (\<lambda>a. if a < subRegion_size g
      then (\<lambda>ip. if ip < NUM_PHASES then dPhaseMobility_dSaturation_value (UpdateState laws g) a ip
                 else dPhaseMobility_dSaturation g a ip)
      else dPhaseMobility_dSaturation g a)"
    unfolding u mobility_values_fixed by (simp add: UpdatePhaseMobility_closed f cong: if_cong)
qed

lemma UpdateState_outside:
  assumes "subRegion_size g \<le> a"
  shows "newPhaseSat (UpdateState laws g) a = newPhaseSat g a
     \<and> phaseMobility (UpdateState laws g) a = phaseMobility g a
     \<and> dPhaseMobility_dPressure (UpdateState laws g) a = dPhaseMobility_dPressure g a
     \<and> dPhaseMobility_dSaturation (UpdateState laws g) a = dPhaseMobility_dSaturation g a
     \<and> phaseDensity (UpdateState laws g) a = phaseDensity g a
     \<and> dPhaseDensity_dPressure (UpdateState laws g) a = dPhaseDensity_dPressure g a
     \<and> phaseViscosity (UpdateState laws g) a = phaseViscosity g a
     \<and> dPhaseViscosity_dPressure (UpdateState laws g) a = dPhaseViscosity_dPressure g a
     \<and> poreVolumeMultiplier (UpdateState laws g) a = poreVolumeMultiplier g a
     \<and> dPVMult_dPres (UpdateState laws g) a = dPVMult_dPres g a
     \<and> phaseRelPerm (UpdateState laws g) a = phaseRelPerm g a
     \<and> dPhaseRelPerm_dPhaseVolFraction (UpdateState laws g) a = dPhaseRelPerm_dPhaseVolFraction g a"
  using assms
  by (simp add: UpdateState_mobility UpdateState_fluid UpdateState_solid UpdateState_relPerm
      UpdateFluidModel_closed UpdateSolidModel_closed UpdateRelPermModel_closed)

lemma UpdateState_inside:
  assumes "a < subRegion_size g"
  shows "(\<forall>ip<NUM_PHASES. newPhaseSat (UpdateState laws g) a ip = phaseSat g a ip + deltaPhaseSat g a ip)
     \<and> phaseDensity (UpdateState laws g) a 0
         = point_density (fluid_evaluate laws (pressure g a + deltaPressure g a) 293.15 (\<lambda>ic. 0))
     \<and> dPhaseDensity_dPressure (UpdateState laws g) a 0
         = point_dDensity_dPressure (fluid_evaluate laws (pressure g a + deltaPressure g a) 293.15 (\<lambda>ic. 0))
     \<and> phaseViscosity (UpdateState laws g) a 0
         = point_viscosity (fluid_evaluate laws (pressure g a + deltaPressure g a) 293.15 (\<lambda>ic. 0))
     \<and> dPhaseViscosity_dPressure (UpdateState laws g) a 0
         = point_dViscosity_dPressure (fluid_evaluate laws (pressure g a + deltaPressure g a) 293.15 (\<lambda>ic. 0))
     \<and> poreVolumeMultiplier (UpdateState laws g) a 0
         = fst (solid_evaluate laws (pressure g a + deltaPressure g a))
     \<and> dPVMult_dPres (UpdateState laws g) a 0
         = snd (solid_evaluate laws (pressure g a + deltaPressure g a))
     \<and> phaseRelPerm (UpdateState laws g) a 0
         = fst (relPerm_evaluate laws (newPhaseSat (UpdateState laws g) a))
     \<and> dPhaseRelPerm_dPhaseVolFraction (UpdateState laws g) a 0
         = snd (relPerm_evaluate laws (newPhaseSat (UpdateState laws g) a))
     \<and> (\<forall>ip<NUM_PHASES.
           phaseMobility (UpdateState laws g) a ip = phaseMobility_value (UpdateState laws g) a ip
         \<and> dPhaseMobility_dPressure (UpdateState laws g) a ip
             = dPhaseMobility_dPressure_value (UpdateState laws g) a ip
         \<and> dPhaseMobility_dSaturation (UpdateState laws g) a ip
             = dPhaseMobility_dSaturation_value (UpdateState laws g) a ip)"
  using assms
  by (simp add: UpdateState_mobility UpdateState_fluid UpdateState_solid UpdateState_relPerm
      UpdateFluidModel_closed UpdateSolidModel_closed UpdateRelPermModel_closed)


text \<open>
  C7: \<^verbatim>\<open>UpdateState\<close> is idempotent: a second call on unchanged primary unknowns gives the state
  of the first call. It writes derived fields only: the number of cells, the pressure, the
  saturation and their changes stay as they are, and so does every derived field of an index
  beyond the cells of the sub-region. For a cell \<open>a\<close> of the sub-region and a phase \<open>ip\<close>, the
  derived fields are the values that the constitutive models evaluate at the trial pressure
  \<^verbatim>\<open>pres[a] + dPres[a]\<close> and the trial saturation \<^verbatim>\<open>phaseSat[a] + dPhaseSat[a]\<close> of this
  cell, and the mobility computed from them, whatever the fields held before.
\<close>

theorem C7_UpdateState_idempotent:
  "UpdateState laws (UpdateState laws g) = UpdateState laws g
   \<and> subRegion_size (UpdateState laws g) = subRegion_size g
   \<and> pressure (UpdateState laws g) = pressure g
   \<and> deltaPressure (UpdateState laws g) = deltaPressure g
   \<and> phaseSat (UpdateState laws g) = phaseSat g
   \<and> deltaPhaseSat (UpdateState laws g) = deltaPhaseSat g
   \<and> (subRegion_size g \<le> a \<longrightarrow>
         newPhaseSat (UpdateState laws g) a = newPhaseSat g a
       \<and> phaseMobility (UpdateState laws g) a = phaseMobility g a
       \<and> dPhaseMobility_dPressure (UpdateState laws g) a = dPhaseMobility_dPressure g a
       \<and> dPhaseMobility_dSaturation (UpdateState laws g) a = dPhaseMobility_dSaturation g a
       \<and> phaseDensity (UpdateState laws g) a = phaseDensity g a
       \<and> dPhaseDensity_dPressure (UpdateState laws g) a = dPhaseDensity_dPressure g a
       \<and> phaseViscosity (UpdateState laws g) a = phaseViscosity g a
       \<and> dPhaseViscosity_dPressure (UpdateState laws g) a = dPhaseViscosity_dPressure g a
       \<and> poreVolumeMultiplier (UpdateState laws g) a = poreVolumeMultiplier g a
       \<and> dPVMult_dPres (UpdateState laws g) a = dPVMult_dPres g a
       \<and> phaseRelPerm (UpdateState laws g) a = phaseRelPerm g a
       \<and> dPhaseRelPerm_dPhaseVolFraction (UpdateState laws g) a = dPhaseRelPerm_dPhaseVolFraction g a)
   \<and> (a < subRegion_size g \<and> ip < NUM_PHASES \<longrightarrow>
         newPhaseSat (UpdateState laws g) a ip = phaseSat g a ip + deltaPhaseSat g a ip
       \<and> phaseDensity (UpdateState laws g) a 0
           = point_density (fluid_evaluate laws (pressure g a + deltaPressure g a) 293.15 (\<lambda>ic. 0))
       \<and> dPhaseDensity_dPressure (UpdateState laws g) a 0
           = point_dDensity_dPressure (fluid_evaluate laws (pressure g a + deltaPressure g a) 293.15 (\<lambda>ic. 0))
       \<and> phaseViscosity (UpdateState laws g) a 0
           = point_viscosity (fluid_evaluate laws (pressure g a + deltaPressure g a) 293.15 (\<lambda>ic. 0))
       \<and> dPhaseViscosity_dPressure (UpdateState laws g) a 0
           = point_dViscosity_dPressure (fluid_evaluate laws (pressure g a + deltaPressure g a) 293.15 (\<lambda>ic. 0))
       \<and> poreVolumeMultiplier (UpdateState laws g) a 0
           = fst (solid_evaluate laws (pressure g a + deltaPressure g a))
       \<and> dPVMult_dPres (UpdateState laws g) a 0
           = snd (solid_evaluate laws (pressure g a + deltaPressure g a))
       \<and> phaseRelPerm (UpdateState laws g) a 0
           = fst (relPerm_evaluate laws (newPhaseSat (UpdateState laws g) a))
       \<and> dPhaseRelPerm_dPhaseVolFraction (UpdateState laws g) a 0
           = snd (relPerm_evaluate laws (newPhaseSat (UpdateState laws g) a))
       \<and> phaseMobility (UpdateState laws g) a ip = phaseMobility_value (UpdateState laws g) a ip
       \<and> dPhaseMobility_dPressure (UpdateState laws g) a ip
           = dPhaseMobility_dPressure_value (UpdateState laws g) a ip
       \<and> dPhaseMobility_dSaturation (UpdateState laws g) a ip
           = dPhaseMobility_dSaturation_value (UpdateState laws g) a ip)"
  using UpdateState_idem [of laws g] UpdateState_primary [of laws g]
    UpdateState_outside [of g a laws] UpdateState_inside [of a g laws]
  by blast

text \<open>
  The example sub-region: the second call changes nothing; the index \<open>5\<close> beyond the two cells
  keeps the mobility \<open>9\<close>; in cell \<open>0\<close> the trial saturation of phase \<open>1\<close> is \<open>1/2\<close>, its density at
  the trial pressure \<open>12\<close> is \<open>24\<close>, its relative permeability \<open>1/2\<close> and its mobility
  \<open>1/2 * 24 / 2 = 6\<close>.
\<close>

theorem C7_UpdateState_idempotent_witness:
  "UpdateState example_laws (UpdateState example_laws example_dataGroup)
     = UpdateState example_laws example_dataGroup
   \<and> phaseMobility (UpdateState example_laws example_dataGroup) 5 1 = 9
   \<and> newPhaseSat (UpdateState example_laws example_dataGroup) 0 1 = 1 / 2
   \<and> phaseDensity (UpdateState example_laws example_dataGroup) 0 0 1 = 24
   \<and> phaseRelPerm (UpdateState example_laws example_dataGroup) 0 0 1 = 1 / 2
   \<and> phaseMobility (UpdateState example_laws example_dataGroup) 0 1 = 6"
  using C7_UpdateState_idempotent [of example_laws example_dataGroup 5 1]
    C7_UpdateState_idempotent [of example_laws example_dataGroup 0 1]
  by (simp add: example_laws_def example_dataGroup_def NUM_PHASES_def phaseMobility_value_def)

end
